theory Spec2Isabelle
  imports Main
begin

section \<open>JavaScript values as they reach the relay\<close>

text \<open>
  A request body is what \<^verbatim>\<open>express.json()\<close> parsed: a JSON value. Objects are kept as
  the list of their own enumerable properties in enumeration order (keys pairwise different),
  so that \<^verbatim>\<open>Object.entries\<close> and \<^verbatim>\<open>Object.keys\<close> are the list itself. A number is
  carried by its canonical rendering, the string that \<^verbatim>\<open>String(n)\<close> returns: the code only
  ever renders a number, tests its truthiness and compares it for identity, and all three are
  functions of that rendering (\<^verbatim>\<open>0\<close>, \<^verbatim>\<open>-0\<close> render as \<^verbatim>\<open>0\<close>). Characters are code units
  below 256.
\<close>

datatype jsval =
    JUndef
  | JNull
  | JBool bool
  | JNum string
  | JStr string
  | JArr "jsval list"
  | JObj "(string \<times> jsval) list"

text \<open>Truthiness, as \<^verbatim>\<open>if (v)\<close>, \<^verbatim>\<open>!v\<close>, \<^verbatim>\<open>a || b\<close>, \<^verbatim>\<open>a && b\<close> and \<^verbatim>\<open>Boolean\<close> test it.\<close>

fun truthy :: "jsval \<Rightarrow> bool" where
  "truthy JUndef = False"
| "truthy JNull = False"
| "truthy (JBool b) = b"
| "truthy (JNum r) = (r \<noteq> ''0'' \<and> r \<noteq> ''NaN'')"
| "truthy (JStr s) = (s \<noteq> [])"
| "truthy (JArr xs) = True"
| "truthy (JObj kvs) = True"

text \<open>\<^verbatim>\<open>a ?? b\<close>\<close>

definition nullish :: "jsval \<Rightarrow> bool" where
  "nullish v = (v = JUndef \<or> v = JNull)"

definition coalesce :: "jsval \<Rightarrow> jsval \<Rightarrow> jsval" where
  "coalesce a b = (if nullish a then b else a)"

text \<open>\<^verbatim>\<open>a || b\<close>\<close>

definition js_or :: "jsval \<Rightarrow> jsval \<Rightarrow> jsval" where
  "js_or a b = (if truthy a then a else b)"

text \<open>\<^verbatim>\<open>Array.prototype.join\<close> on already rendered elements.\<close>

fun join_with :: "string \<Rightarrow> string list \<Rightarrow> string" where
  "join_with sep [] = []"
| "join_with sep [x] = x"
| "join_with sep (x # y # ys) = x @ sep @ join_with sep (y # ys)"

text \<open>
  \<^verbatim>\<open>String(v)\<close> and a template literal convert an object through its \<^verbatim>\<open>toString\<close>. On a
  parsed object with an own key \<^verbatim>\<open>toString\<close> that property is a JSON value, not a function,
  and neither it nor the inherited \<^verbatim>\<open>valueOf\<close> gives a primitive: the conversion throws a
  \<^verbatim>\<open>TypeError\<close>. An array converts its elements, skipping \<^verbatim>\<open>null\<close> and
  \<^verbatim>\<open>undefined\<close>, so it throws when one of them does. \<open>stringable\<close> says that the conversion
  returns, \<open>rendered\<close> is what it returns then: an array as its elements joined by commas,
  any other object as \<^verbatim>\<open>[object Object]\<close>. Error messages are worded as Node's engine words
  them.
\<close>

datatype js_error = TypeError string

fun stringable :: "jsval \<Rightarrow> bool" where
  "stringable (JObj kvs) = (''toString'' \<notin> set (map fst kvs))"
| "stringable (JArr xs) = list_all stringable xs"
| "stringable v = True"

fun rendered :: "jsval \<Rightarrow> string" where
  "rendered JUndef = ''undefined''"
| "rendered JNull = ''null''"
| "rendered (JBool b) = (if b then ''true'' else ''false'')"
| "rendered (JNum r) = r"
| "rendered (JStr s) = s"
| "rendered (JArr xs) =
     join_with '','' (map (\<lambda>x. if x = JUndef \<or> x = JNull then [] else rendered x) xs)"
| "rendered (JObj kvs) = ''[object Object]''"

definition js_String :: "jsval \<Rightarrow> js_error + string" where
  "js_String v =
     (if stringable v then Inr (rendered v)
      else Inl (TypeError ''Cannot convert object to primitive value''))"

text \<open>\<^verbatim>\<open>String.prototype.trim\<close>: white space and line terminators among the code units below 256.\<close>

definition is_ws :: "char \<Rightarrow> bool" where
  "is_ws c = (c \<in> set [CHR 0x09, CHR 0x0A, CHR 0x0B, CHR 0x0C, CHR 0x0D, CHR 0x20, CHR 0xA0])"

definition trim :: "string \<Rightarrow> string" where
  "trim s = rev (dropWhile is_ws (rev (dropWhile is_ws s)))"

text \<open>\<^verbatim>\<open>s.split(c)\<close> for a one-character separator: never empty, \<^verbatim>\<open>''.split(c)\<close> is \<^verbatim>\<open>['']\<close>.\<close>

fun split_on :: "char \<Rightarrow> string \<Rightarrow> string list" where
  "split_on c [] = [[]]"
| "split_on c (x # xs) =
     (if x = c then [] # split_on c xs
      else (case split_on c xs of [] \<Rightarrow> [[x]] | y # ys \<Rightarrow> (x # y) # ys))"

text \<open>Decimal rendering of an array index or a length.\<close>

definition digit_char :: "nat \<Rightarrow> char" where
  "digit_char d = ''0123456789'' ! d"

function show_nat :: "nat \<Rightarrow> string" where
  "show_nat n = (if n < 10 then [digit_char n] else show_nat (n div 10) @ [digit_char (n mod 10)])"
  by pat_completeness auto
termination
  by (relation "measure id") auto

declare show_nat.simps [simp del]

text \<open>
  \<^verbatim>\<open>o[k]\<close> on a value that is neither \<^verbatim>\<open>null\<close> nor \<^verbatim>\<open>undefined\<close>, for own properties: the
  entries of an object, the indices and the length of an array or of a string. Inherited
  properties (methods) are not modelled; no key that the relay reads names one.
\<close>

definition index_of_key :: "string \<Rightarrow> nat \<Rightarrow> nat option" where
  "index_of_key k n = find (\<lambda>i. show_nat i = k) [0..<n]"

fun get_prop :: "jsval \<Rightarrow> string \<Rightarrow> jsval" where
  "get_prop (JObj kvs) k = (case map_of kvs k of None \<Rightarrow> JUndef | Some v \<Rightarrow> v)"
| "get_prop (JArr xs) k =
     (if k = ''length'' then JNum (show_nat (length xs))
      else (case index_of_key k (length xs) of None \<Rightarrow> JUndef | Some i \<Rightarrow> xs ! i))"
| "get_prop (JStr s) k =
     (if k = ''length'' then JNum (show_nat (length s))
      else (case index_of_key k (length s) of None \<Rightarrow> JUndef | Some i \<Rightarrow> JStr [s ! i]))"
| "get_prop v k = JUndef"

section \<open>Field normalization (server.js)\<close>

text \<open>
  \<^verbatim>\<open>p.split('.').reduce((o, k) => (o && o[k] !== undefined ? o[k] : undefined), payload)\<close>
\<close>

definition resolve_path :: "jsval \<Rightarrow> string \<Rightarrow> jsval" where
  "resolve_path payload p =
     foldl (\<lambda>obj k. if truthy obj \<and> get_prop obj k \<noteq> JUndef then get_prop obj k else JUndef)
       payload (split_on CHR ''.'' p)"

text \<open>
  \<^verbatim>\<open>v !== undefined && v !== null && String(v).trim() !== ''\<close>, which throws when
  \<^verbatim>\<open>String(v)\<close> does; \<^verbatim>\<open>pick\<close> throws with it.
\<close>

definition pick_ok :: "jsval \<Rightarrow> js_error + bool" where
  "pick_ok v =
     (if v = JUndef \<or> v = JNull then Inr False
      else (case js_String v of Inl err \<Rightarrow> Inl err | Inr s \<Rightarrow> Inr (trim s \<noteq> [])))"

fun pick :: "jsval \<Rightarrow> string list \<Rightarrow> js_error + jsval" where
  "pick payload [] = Inr JUndef"
| "pick payload (p # ps) =
     (let v = resolve_path payload p in
      case pick_ok v of
        Inl err \<Rightarrow> Inl err
      | Inr ok \<Rightarrow> if ok then Inr v else pick payload ps)"

text \<open>
  \<^verbatim>\<open>ensureArrayTags\<close>: an array as it is, a string cut at its commas into trimmed, non-empty
  pieces, anything else as no tags.
\<close>

fun ensureArrayTags :: "jsval \<Rightarrow> jsval list" where
  "ensureArrayTags (JArr xs) = xs"
| "ensureArrayTags (JStr s) =
     filter truthy (map (\<lambda>t. JStr (trim t)) (split_on CHR '','' s))"
| "ensureArrayTags v = []"

text \<open>
  \<^verbatim>\<open>Object.entries(v)\<close>: a \<^verbatim>\<open>TypeError\<close> on \<^verbatim>\<open>null\<close> and \<^verbatim>\<open>undefined\<close>, the indexed
  elements of an array or a string, nothing for a number or a boolean.
\<close>

fun object_entries :: "jsval \<Rightarrow> js_error + (string \<times> jsval) list" where
  "object_entries JUndef = Inl (TypeError ''Cannot convert undefined or null to object'')"
| "object_entries JNull = Inl (TypeError ''Cannot convert undefined or null to object'')"
| "object_entries (JObj kvs) = Inr kvs"
| "object_entries (JArr xs) = Inr (zip (map show_nat [0..<length xs]) xs)"
| "object_entries (JStr s) = Inr (zip (map show_nat [0..<length s]) (map (\<lambda>c. JStr [c]) s))"
| "object_entries v = Inr []"

text \<open>
  The comparison behind \<^verbatim>\<open>Array.prototype.includes\<close> and \<^verbatim>\<open>Set\<close> (SameValueZero), between
  the values at two different places of a tag list: primitives are the same when they are equal;
  arrays and objects are compared by reference, and two places of a parsed body never hold the
  same reference.
\<close>

fun same_value_zero :: "jsval \<Rightarrow> jsval \<Rightarrow> bool" where
  "same_value_zero (JArr xs) w = False"
| "same_value_zero (JObj kvs) w = False"
| "same_value_zero v (JArr ys) = False"
| "same_value_zero v (JObj kvs) = False"
| "same_value_zero v w = (v = w)"

definition js_includes :: "jsval list \<Rightarrow> jsval \<Rightarrow> bool" where
  "js_includes xs v = list_ex (\<lambda>y. same_value_zero y v) xs"

text \<open>\<^verbatim>\<open>[...new Set(tags)]\<close>: the elements in order of first insertion.\<close>

fun set_add_all :: "jsval list \<Rightarrow> jsval list \<Rightarrow> jsval list" where
  "set_add_all seen [] = seen"
| "set_add_all seen (x # xs) =
     (if js_includes seen x then set_add_all seen xs else set_add_all (seen @ [x]) xs)"

definition js_dedup :: "jsval list \<Rightarrow> jsval list" where
  "js_dedup xs = set_add_all [] xs"

text \<open>
  The loop over \<^verbatim>\<open>Object.entries(payload)\<close> that pushes the values of matching keys. When the
  tag list is the array found at the top-level key \<^verbatim>\<open>tags\<close>, that entry's value is the tag list
  itself (\<^verbatim>\<open>ensureArrayTags\<close> returns the array it was given), so the value read at that key is
  the list as pushed so far; \<open>aliased\<close> says so. The pattern is the result of
  \<^verbatim>\<open>tagFromKeysRegex.test\<close> on a key (a regular expression without the sticky or global flag).
  The loop ends with the exception of \<^verbatim>\<open>String(v)\<close> when a value to push cannot be converted.
\<close>

fun push_key_tags ::
  "(string \<Rightarrow> bool) \<Rightarrow> bool \<Rightarrow> (string \<times> jsval) list \<Rightarrow> jsval list \<Rightarrow>
   js_error + jsval list" where
  "push_key_tags rx aliased [] tags = Inr tags"
| "push_key_tags rx aliased ((k, v) # es) tags =
     (let cur = (if aliased \<and> k = ''tags'' then JArr tags else v) in
      if \<not> truthy cur then push_key_tags rx aliased es tags
      else if rx k then
        (case js_String cur of
           Inl err \<Rightarrow> Inl err
         | Inr s \<Rightarrow> push_key_tags rx aliased es (tags @ [JStr (trim s)]))
      else push_key_tags rx aliased es tags)"

text \<open>
  \<^verbatim>\<open>for (let i = defaultTags.length - 1; i >= 0; i--)
    if (!tags.includes(defaultTags[i])) tags.unshift(defaultTags[i]);\<close>
\<close>

definition unshift_defaults :: "string list \<Rightarrow> jsval list \<Rightarrow> jsval list" where
  "unshift_defaults defaultTags tags =
     foldl (\<lambda>ts d. if \<not> js_includes ts (JStr d) then JStr d # ts else ts) tags (rev defaultTags)"

text \<open>The contact object: a field is there only when the code assigned it.\<close>

record contact =
  email :: "jsval option"
  phone :: "jsval option"
  firstName :: "jsval option"
  lastName :: "jsval option"
  tags :: "jsval list option"
  locationId :: "string option"

definition when_truthy :: "jsval \<Rightarrow> jsval option" where
  "when_truthy v = (if truthy v then Some v else None)"

definition email_paths :: "string list" where
  "email_paths = [''email'', ''contact.email'', ''contact.email_address'']"

definition phone_paths :: "string list" where
  "phone_paths = [''phone'', ''contact.phone'', ''contact.phone_number'']"

definition firstName_paths :: "string list" where
  "firstName_paths =
     [''firstName'', ''firstname'', ''first_name'', ''contact.first_name'', ''contact.firstname'']"

definition lastName_paths :: "string list" where
  "lastName_paths =
     [''lastName'', ''lastname'', ''last_name'', ''contact.last_name'', ''contact.lastname'']"

definition tags_paths :: "string list" where
  "tags_paths = [''tags'', ''contact.tags'']"

text \<open>
  Lines 62 to 70 of \<^verbatim>\<open>buildContactPayload\<close>: the tags found in the payload, before the
  default tags are added. Without a pattern \<^verbatim>\<open>Object.entries\<close> is not called.
\<close>

definition discovered_tags :: "jsval \<Rightarrow> (string \<Rightarrow> bool) option \<Rightarrow> js_error + jsval list" where
  "discovered_tags payload tagFromKeysRegex =
     (case pick payload tags_paths of
        Inl err \<Rightarrow> Inl err
      | Inr found \<Rightarrow>
          (let tags0 = ensureArrayTags found;
               aliased = (case resolve_path payload ''tags'' of
                            JArr xs \<Rightarrow> pick_ok (JArr xs) = Inr True | _ \<Rightarrow> False)
           in case tagFromKeysRegex of
                None \<Rightarrow> Inr tags0
              | Some rx \<Rightarrow>
                  (case object_entries payload of
                     Inl err \<Rightarrow> Inl err
                   | Inr es \<Rightarrow> push_key_tags rx aliased es tags0)))"

text \<open>Lines 72 to 76: default tags in front, one copy of each element, falsy elements out.\<close>

definition final_tags :: "string list \<Rightarrow> jsval list \<Rightarrow> jsval list" where
  "final_tags defaultTags found = filter truthy (js_dedup (unshift_defaults defaultTags found))"

definition buildContactPayload ::
  "jsval \<Rightarrow> string list \<Rightarrow> string option \<Rightarrow> (string \<Rightarrow> bool) option \<Rightarrow> js_error + contact" where
  "buildContactPayload payload defaultTags locId tagFromKeysRegex =
     (case pick payload email_paths of
        Inl err \<Rightarrow> Inl err
      | Inr em \<Rightarrow>
     (case pick payload phone_paths of
        Inl err \<Rightarrow> Inl err
      | Inr ph \<Rightarrow>
     (case pick payload firstName_paths of
        Inl err \<Rightarrow> Inl err
      | Inr fn \<Rightarrow>
     (case pick payload lastName_paths of
        Inl err \<Rightarrow> Inl err
      | Inr ln \<Rightarrow>
     (case discovered_tags payload tagFromKeysRegex of
        Inl err \<Rightarrow> Inl err
      | Inr found \<Rightarrow>
          (let ts = final_tags defaultTags found
           in Inr \<lparr> email = when_truthy em,
                    phone = when_truthy ph,
                    firstName = when_truthy fn,
                    lastName = when_truthy ln,
                    tags = (if ts \<noteq> [] then Some ts else None),
                    locationId = (case locId of
                                    None \<Rightarrow> None
                                  | Some l \<Rightarrow> if l \<noteq> [] then Some l else None) \<rparr>))))))"

section \<open>Requests, outbound calls and responses\<close>

text \<open>
  What a handler reads of a request: the header \<^verbatim>\<open>x-shared-secret\<close>, the query parameter
  \<^verbatim>\<open>secret\<close> and the parsed body (\<^verbatim>\<open>undefined\<close> where there is none). An environment
  variable is a \<open>string option\<close>. An outbound call is what \<^verbatim>\<open>axios\<close> is asked to send; the
  remote side is a function from the calls issued so far, the last one being the call to
  answer, to the result of awaiting it: a response body, or a rejection with the body of the
  error response (\<^verbatim>\<open>undefined\<close> without one) and the error's message. A handler returns the
  calls it issued, in order, and how it ended. Writing to the log files and to the console is
  left out: neither the response nor the calls depend on it.
\<close>

record request =
  x_shared_secret :: jsval
  query_secret :: jsval
  body :: jsval

datatype http_call =
  HttpCall (meth: string) (url: string) (headers: "(string \<times> string) list") (sent: jsval)

datatype axios_result = Resolved jsval | Rejected jsval string

datatype handler_end = Responded nat jsval | Unhandled js_error

type_synonym remote = "http_call list \<Rightarrow> axios_result"

type_synonym outcome = "http_call list \<times> handler_end"

text \<open>An environment variable inside a template literal.\<close>

definition env_str :: "string option \<Rightarrow> string" where
  "env_str v = (case v of None \<Rightarrow> ''undefined'' | Some s \<Rightarrow> s)"

definition env_truthy :: "string option \<Rightarrow> bool" where
  "env_truthy v = (case v of None \<Rightarrow> False | Some s \<Rightarrow> s \<noteq> [])"

text \<open>\<^verbatim>\<open>a && b\<close>\<close>

definition js_and :: "jsval \<Rightarrow> jsval \<Rightarrow> jsval" where
  "js_and a b = (if truthy a then b else a)"

text \<open>\<^verbatim>\<open>v.k\<close>, which throws on \<^verbatim>\<open>null\<close> and \<^verbatim>\<open>undefined\<close>, and \<^verbatim>\<open>v?.k\<close>, which does not.\<close>

definition cannot_read :: "jsval \<Rightarrow> string \<Rightarrow> js_error" where
  "cannot_read v k =
     TypeError (''Cannot read properties of '' @ rendered v @ '' (reading '' @ [CHR 0x27] @ k @
                [CHR 0x27] @ '')'')"

definition member :: "jsval \<Rightarrow> string \<Rightarrow> js_error + jsval" where
  "member v k = (if nullish v then Inl (cannot_read v k) else Inr (get_prop v k))"

definition opt_member :: "jsval \<Rightarrow> string \<Rightarrow> jsval" where
  "opt_member v k = (if nullish v then JUndef else get_prop v k)"

text \<open>\<^verbatim>\<open>err.response?.data || err.message\<close>\<close>

definition error_details :: "jsval \<Rightarrow> string \<Rightarrow> jsval" where
  "error_details response_data message = js_or response_data (JStr message)"

definition thrown_details :: "js_error \<Rightarrow> jsval" where
  "thrown_details e = (case e of TypeError message \<Rightarrow> error_details JUndef message)"

subsection \<open>The shared secret (server.js)\<close>

text \<open>
  \<^verbatim>\<open>assertSharedSecret\<close> returns whether the request may proceed; when it returns false it
  has sent the 401 response. \<^verbatim>\<open>String(incoming)\<close> is evaluated for a truthy secret only, and
  its exception leaves the function.
\<close>

definition assertSharedSecret :: "string option \<Rightarrow> request \<Rightarrow> js_error + bool" where
  "assertSharedSecret configured req =
     (if \<not> env_truthy configured then Inr True
      else
        (let incoming =
               js_or (js_or (x_shared_secret req) (query_secret req))
                     (js_and (body req) (get_prop (body req) ''secret''))
         in if \<not> truthy incoming then Inr False
            else (case js_String incoming of
                    Inl err \<Rightarrow> Inl err
                  | Inr s \<Rightarrow> Inr (s = env_str configured))))"

definition unauthorized :: handler_end where
  "unauthorized =
     Responded 401
       (JObj [(''status'', JStr ''error''),
              (''message'', JStr ''Unauthorized (shared secret missing/invalid)'')])"

subsection \<open>The CRM routes of server.js\<close>

text \<open>\<^verbatim>\<open>/competency_coach/i.test(k)\<close>: the pattern occurs in the key, letters compared without case.\<close>

definition ascii_lower :: "char \<Rightarrow> char" where
  "ascii_lower c =
     (case map_of (zip ''ABCDEFGHIJKLMNOPQRSTUVWXYZ'' ''abcdefghijklmnopqrstuvwxyz'') c of
        None \<Rightarrow> c
      | Some l \<Rightarrow> l)"

fun contains_ci :: "string \<Rightarrow> string \<Rightarrow> bool" where
  "contains_ci pat [] = (pat = [])"
| "contains_ci pat (c # cs) =
     (map ascii_lower (take (length pat) (c # cs)) = pat \<or> contains_ci pat cs)"

definition competency_coach :: "string \<Rightarrow> bool" where
  "competency_coach k = contains_ci ''competency_coach'' k"

text \<open>The contact as the object that is posted: the assigned fields, in the order of assignment.\<close>

definition opt_entry :: "string \<Rightarrow> jsval option \<Rightarrow> (string \<times> jsval) list" where
  "opt_entry k v = (case v of None \<Rightarrow> [] | Some x \<Rightarrow> [(k, x)])"

definition contact_to_js :: "contact \<Rightarrow> jsval" where
  "contact_to_js c =
     JObj (opt_entry ''email'' (email c) @ opt_entry ''phone'' (phone c) @
           opt_entry ''firstName'' (firstName c) @ opt_entry ''lastName'' (lastName c) @
           opt_entry ''tags'' (map_option JArr (tags c)) @
           opt_entry ''locationId'' (map_option JStr (locationId c)))"

definition field :: "jsval option \<Rightarrow> jsval" where
  "field v = (case v of None \<Rightarrow> JUndef | Some x \<Rightarrow> x)"

definition upsertToGHL :: "string option \<Rightarrow> contact \<Rightarrow> http_call" where
  "upsertToGHL apiKey c =
     HttpCall ''POST'' ''https://rest.gohighlevel.com/v1/contacts/''
       [(''Authorization'', ''Bearer '' @ env_str apiKey),
        (''Content-Type'', ''application/json'')]
       (contact_to_js c)"

text \<open>
  \<^verbatim>\<open>/webhook\<close>, \<^verbatim>\<open>/webhook2\<close>, \<^verbatim>\<open>/webhook3\<close> and \<^verbatim>\<open>/webhook/new-ghl-account\<close> of server.js
  are this handler, each with its own API key and location id from the environment. An
  exception of \<^verbatim>\<open>assertSharedSecret\<close> or of \<^verbatim>\<open>buildContactPayload\<close> is thrown outside the
  \<^verbatim>\<open>try\<close>: the handler ends without a response.
\<close>

definition crm_webhook ::
  "string option \<Rightarrow> string option \<Rightarrow> string option \<Rightarrow> remote \<Rightarrow> request \<Rightarrow> outcome" where
  "crm_webhook configured apiKey locId remote req =
     (case assertSharedSecret configured req of
        Inl err \<Rightarrow> ([], Unhandled err)
      | Inr pass \<Rightarrow>
      if \<not> pass then ([], unauthorized)
      else
        (case buildContactPayload (body req) [''From Account A''] locId (Some competency_coach) of
           Inl err \<Rightarrow> ([], Unhandled err)
         | Inr c \<Rightarrow>
             if \<not> truthy (field (email c)) \<and> \<not> truthy (field (phone c))
             then ([], Responded 400
                         (JObj [(''status'', JStr ''error''),
                                (''message'', JStr ''Missing email or phone'')]))
             else
               (let call = upsertToGHL apiKey c in
                case remote [call] of
                  Resolved d \<Rightarrow>
                    ([call], Responded 200 (JObj [(''status'', JStr ''success''), (''data'', d)]))
                | Rejected rd message \<Rightarrow>
                    ([call], Responded 500
                               (JObj [(''status'', JStr ''error''),
                                      (''error'', error_details rd message)])))))"

section \<open>The later revision of the relay\<close>

text \<open>
  The revision with the search-then-update upsert and the batch upsert for the marketing
  platform. Its CRM routes normalize with \<^verbatim>\<open>buildGhlContact\<close> and have no shared-secret check.
\<close>

subsection \<open>CRM routes\<close>

text \<open>
  \<^verbatim>\<open>buildGhlContact\<close> reads \<^verbatim>\<open>payload.email\<close> first, which throws when the payload is
  \<^verbatim>\<open>null\<close> or \<^verbatim>\<open>undefined\<close>; \<^verbatim>\<open>String(payload.tags)\<close>, for tags that are truthy and not
  an array, throws when they cannot be converted. The object returned always has its five keys.
\<close>

definition split_tags :: "jsval \<Rightarrow> js_error + jsval" where
  "split_tags tg =
     (case tg of
        JArr xs \<Rightarrow> Inr (JArr xs)
      | _ \<Rightarrow>
          if truthy tg
          then (case js_String tg of
                  Inl err \<Rightarrow> Inl err
                | Inr s \<Rightarrow>
                    Inr (JArr (filter truthy (map (\<lambda>t. JStr (trim t)) (split_on CHR '','' s)))))
          else Inr (JArr []))"

definition buildGhlContact :: "jsval \<Rightarrow> js_error + (string \<times> jsval) list" where
  "buildGhlContact payload =
     (if nullish payload then Inl (cannot_read payload ''email'')
      else
        (let ct = get_prop payload ''contact'' in
         case split_tags (get_prop payload ''tags'') of
           Inl err \<Rightarrow> Inl err
         | Inr tgs \<Rightarrow>
         Inr [(''email'', js_or (get_prop payload ''email'') (opt_member ct ''email'')),
              (''phone'', js_or (get_prop payload ''phone'') (opt_member ct ''phone'')),
              (''firstName'',
                 js_or (js_or (js_or (get_prop payload ''firstName'') (get_prop payload ''firstname''))
                              (opt_member ct ''first_name''))
                       (opt_member ct ''firstname'')),
              (''lastName'',
                 js_or (js_or (js_or (get_prop payload ''lastName'') (get_prop payload ''lastname''))
                              (opt_member ct ''last_name''))
                       (opt_member ct ''lastname'')),
              (''tags'', tgs)]))"

definition obj_get :: "(string \<times> jsval) list \<Rightarrow> string \<Rightarrow> jsval" where
  "obj_get props k = get_prop (JObj props) k"

definition upsertToGhl :: "string option \<Rightarrow> (string \<times> jsval) list \<Rightarrow> string option \<Rightarrow> http_call" where
  "upsertToGhl apiKey c locId =
     HttpCall ''POST'' ''https://services.leadconnectorhq.com/contacts/''
       [(''Authorization'', ''Bearer '' @ env_str apiKey),
        (''Content-Type'', ''application/json''),
        (''Accept'', ''application/json''),
        (''Version'', ''2021-07-28'')]
       (if env_truthy locId then JObj (c @ [(''locationId'', JStr (env_str locId))]) else JObj c)"

text \<open>
  \<^verbatim>\<open>/webhook\<close>, \<^verbatim>\<open>/webhook2\<close> and \<^verbatim>\<open>/webhook3\<close>: the account's letter, its API key and its
  location id are the parameters. There is no shared-secret check in this revision. Inside
  the \<^verbatim>\<open>try\<close>, \<^verbatim>\<open>resp.data.id\<close> is read for the console, which throws on an empty answer.
\<close>

definition ghl_webhook ::
  "string \<Rightarrow> string option \<Rightarrow> string option \<Rightarrow> remote \<Rightarrow> request \<Rightarrow> outcome" where
  "ghl_webhook account apiKey locId remote req =
     (case buildGhlContact (body req) of
        Inl err \<Rightarrow> ([], Unhandled err)
      | Inr c \<Rightarrow>
          if \<not> truthy (obj_get c ''email'') \<and> \<not> truthy (obj_get c ''phone'')
          then ([], Responded 400 (JStr ''Missing email or phone''))
          else
            (let call = upsertToGhl apiKey c locId in
             case remote [call] of
               Resolved d \<Rightarrow>
                 (case member d ''id'' of
                    Inl err \<Rightarrow> ([call], Responded 500 (JStr (''Error sending to Account '' @ account)))
                  | Inr i \<Rightarrow> ([call], Responded 200 (JStr (''Sent to Account '' @ account))))
             | Rejected rd message \<Rightarrow>
                 ([call], Responded 500 (JStr (''Error sending to Account '' @ account)))))"

subsection \<open>Marketing-platform normalizers\<close>

text \<open>
  Both take \<^verbatim>\<open>{}\<close> for a missing argument and throw on \<^verbatim>\<open>null\<close>. The result is the object
  literal: its keys in order, each with its value.
\<close>

definition normalizeHubSpotContact :: "jsval \<Rightarrow> js_error + (string \<times> jsval) list" where
  "normalizeHubSpotContact arg =
     (let raw = (if arg = JUndef then JObj [] else arg) in
      if nullish raw then Inl (cannot_read raw ''email'')
      else
        Inr [(''email'', get_prop raw ''email''),
             (''firstname'',
                coalesce (coalesce (get_prop raw ''firstname'') (get_prop raw ''firstName'')) (JStr [])),
             (''lastname'',
                coalesce (coalesce (get_prop raw ''lastname'') (get_prop raw ''lastName'')) (JStr [])),
             (''phone'', coalesce (get_prop raw ''phone'') (JStr [])),
             (''source'', coalesce (get_prop raw ''source'') (JStr [])),
             (''investor_archetype_ppt_frequency'',
                coalesce (get_prop raw ''investor_archetype_ppt_frequency'') (JStr [])),
             (''investor_archetype_ppt_profile'',
                coalesce (get_prop raw ''investor_archetype_ppt_profile'') (JStr [])),
             (''investor_archetype_free_ppt_frequency'',
                coalesce (get_prop raw ''investor_archetype_free_ppt_frequency'') (JStr []))])"

definition coalesce4 :: "jsval \<Rightarrow> jsval \<Rightarrow> jsval \<Rightarrow> jsval \<Rightarrow> jsval \<Rightarrow> jsval" where
  "coalesce4 a b c d e = coalesce (coalesce (coalesce (coalesce a b) c) d) e"

definition normalizeHubSpotContactOperatingFrame :: "jsval \<Rightarrow> js_error + (string \<times> jsval) list" where
  "normalizeHubSpotContactOperatingFrame arg =
     (let raw = (if arg = JUndef then JObj [] else arg) in
      if nullish raw then Inl (cannot_read raw ''contact'')
      else
        (let c = coalesce (get_prop raw ''contact'') raw in
         Inr [(''email'', coalesce (get_prop raw ''email'') (get_prop c ''email'')),
              (''firstname'',
                 coalesce4 (get_prop raw ''firstname'') (get_prop raw ''firstName'')
                   (get_prop c ''first_name'') (get_prop c ''firstname'') (JStr [])),
              (''lastname'',
                 coalesce4 (get_prop raw ''lastname'') (get_prop raw ''lastName'')
                   (get_prop c ''last_name'') (get_prop c ''lastname'') (JStr [])),
              (''phone'', coalesce (coalesce (get_prop raw ''phone'') (get_prop c ''phone'')) (JStr [])),
              (''Source'',
                 coalesce (coalesce (get_prop raw ''source'') (get_prop c ''source''))
                   (JStr ''GHL Survey'')),
              (''FreeOperatingFrameFrequency'',
                 coalesce4 (get_prop raw ''free_operatingframe_frequency'')
                   (get_prop c ''free_operatingframe_frequency'')
                   (get_prop raw ''FreeOperatingFrameFrequency'')
                   (get_prop c ''FreeOperatingFrameFrequency'') (JStr [])),
              (''FreeOperatingFrameTest'',
                 coalesce4 (get_prop raw ''free_operatingframe_test'')
                   (get_prop c ''free_operatingframe_test'')
                   (get_prop raw ''FreeOperatingFrameTest'')
                   (get_prop c ''FreeOperatingFrameTest'') (JStr []))]))"

subsection \<open>Single-contact upsert\<close>

definition hubspot_headers :: "string option \<Rightarrow> (string \<times> string) list" where
  "hubspot_headers token =
     [(''Authorization'', ''Bearer '' @ env_str token), (''Content-Type'', ''application/json'')]"

definition hs_call :: "string option \<Rightarrow> string \<Rightarrow> string \<Rightarrow> jsval \<Rightarrow> http_call" where
  "hs_call token m path b = HttpCall m (''https://api.hubapi.com'' @ path) (hubspot_headers token) b"

definition searchBody :: "(string \<times> jsval) list \<Rightarrow> jsval" where
  "searchBody props =
     JObj [(''filterGroups'',
              JArr [JObj [(''filters'',
                             JArr [JObj [(''propertyName'', JStr ''email''),
                                         (''operator'', JStr ''EQ''),
                                         (''value'', obj_get props ''email'')]])]]),
           (''properties'', JArr (map (\<lambda>kv. JStr (fst kv)) props)),
           (''limit'', JNum ''1'')]"

definition server_error :: "jsval \<Rightarrow> handler_end" where
  "server_error details = Responded 500 (JObj [(''status'', JStr ''error''), (''error'', details)])"

text \<open>
  \<^verbatim>\<open>search.data?.results?.[0] || null\<close>. The path of the update is a template literal with
  the id of the record: an id that cannot be converted throws inside the \<^verbatim>\<open>try\<close>, before
  the call is issued.
\<close>

definition first_result :: "jsval \<Rightarrow> jsval" where
  "first_result d = js_or (opt_member (opt_member d ''results'') ''0'') JNull"

definition hubspot_upsert :: "string option \<Rightarrow> remote \<Rightarrow> request \<Rightarrow> outcome" where
  "hubspot_upsert token remote req =
     (case normalizeHubSpotContact (js_or (body req) (JObj [])) of
        Inl err \<Rightarrow> ([], server_error (thrown_details err))
      | Inr props \<Rightarrow>
          if \<not> truthy (obj_get props ''email'')
          then ([], Responded 400
                      (JObj [(''status'', JStr ''error''),
                             (''message'', JStr ''Missing required field: email'')]))
          else
            (let search = hs_call token ''POST'' ''/crm/v3/objects/contacts/search'' (searchBody props) in
             case remote [search] of
               Rejected rd message \<Rightarrow> ([search], server_error (error_details rd message))
             | Resolved found \<Rightarrow>
                 (let existing = first_result found in
                  if truthy existing then
                    (let ident = get_prop existing ''id'' in
                     case js_String ident of
                       Inl err \<Rightarrow> ([search], server_error (thrown_details err))
                     | Inr s \<Rightarrow>
                    (let update = hs_call token ''PATCH'' (''/crm/v3/objects/contacts/'' @ s)
                                    (JObj [(''properties'', JObj props)])
                     in case remote [search, update] of
                          Rejected rd message \<Rightarrow>
                            ([search, update], server_error (error_details rd message))
                        | Resolved d \<Rightarrow>
                            ([search, update],
                             Responded 200
                               (JObj [(''status'', JStr ''updated''), (''id'', ident), (''data'', d)]))))
                  else
                    (let create = hs_call token ''POST'' ''/crm/v3/objects/contacts''
                                    (JObj [(''properties'', JObj props)])
                     in case remote [search, create] of
                          Rejected rd message \<Rightarrow>
                            ([search, create], server_error (error_details rd message))
                        | Resolved d \<Rightarrow>
                            (case member d ''id'' of
                               Inl err \<Rightarrow> ([search, create], server_error (thrown_details err))
                             | Inr i \<Rightarrow>
                                 ([search, create],
                                  Responded 200
                                    (JObj [(''status'', JStr ''created''), (''id'', i),
                                           (''data'', d)])))))))"

subsection \<open>Batch upsert\<close>

text \<open>
  \<^verbatim>\<open>arr.reduce((a, _, i) => (i % size ? a : [...a, arr.slice(i, i + size)]), [])\<close>;
  \<^verbatim>\<open>i % 0\<close> is \<^verbatim>\<open>NaN\<close>, which is falsy.
\<close>

definition chunk :: "'a list \<Rightarrow> nat \<Rightarrow> 'a list list" where
  "chunk arr sz =
     foldl (\<lambda>a i. if sz \<noteq> 0 \<and> i mod sz \<noteq> 0 then a else a @ [take sz (drop i arr)])
       [] [0..<length arr]"

text \<open>\<^verbatim>\<open>group.map(c => ({ idProperty: 'email', properties: normalizeHubSpotContact(c) }))\<close>\<close>

fun batch_inputs :: "jsval list \<Rightarrow> js_error + jsval list" where
  "batch_inputs [] = Inr []"
| "batch_inputs (c # cs) =
     (case normalizeHubSpotContact c of
        Inl err \<Rightarrow> Inl err
      | Inr props \<Rightarrow>
          (case batch_inputs cs of
             Inl err \<Rightarrow> Inl err
           | Inr rest \<Rightarrow>
               Inr (JObj [(''idProperty'', JStr ''email''), (''properties'', JObj props)] # rest)))"

definition batch_call :: "string option \<Rightarrow> jsval list \<Rightarrow> http_call" where
  "batch_call token inputs =
     hs_call token ''POST'' ''/crm/v3/objects/contacts/batch/upsert''
       (JObj [(''inputs'', JArr inputs)])"

text \<open>
  The \<^verbatim>\<open>for\<close> loop over the groups, with the calls issued and the answers collected so far;
  it ends with the details of the first exception or with all the answers.
\<close>

fun upsert_groups ::
  "string option \<Rightarrow> remote \<Rightarrow> jsval list list \<Rightarrow> http_call list \<Rightarrow> jsval list \<Rightarrow>
   http_call list \<times> (jsval + jsval list)" where
  "upsert_groups token remote [] calls results = (calls, Inr results)"
| "upsert_groups token remote (g # gs) calls results =
     (case batch_inputs g of
        Inl err \<Rightarrow> (calls, Inl (thrown_details err))
      | Inr inputs \<Rightarrow>
          (case remote (calls @ [batch_call token inputs]) of
             Rejected rd message \<Rightarrow>
               (calls @ [batch_call token inputs], Inl (error_details rd message))
           | Resolved d \<Rightarrow>
               upsert_groups token remote gs (calls @ [batch_call token inputs]) (results @ [d])))"

definition hubspot_batch :: "string option \<Rightarrow> remote \<Rightarrow> request \<Rightarrow> outcome" where
  "hubspot_batch token remote req =
     (case member (body req) ''contacts'' of
        Inl err \<Rightarrow> ([], server_error (thrown_details err))
      | Inr cs \<Rightarrow>
          (let items = (case cs of JArr xs \<Rightarrow> xs | _ \<Rightarrow> []) in
           if length items = 0
           then ([], Responded 400
                       (JObj [(''status'', JStr ''error''),
                              (''message'', JStr ''Body must include contacts[]'')]))
           else
             (case upsert_groups token remote (chunk items 100) [] [] of
                (calls, Inl details) \<Rightarrow> (calls, server_error details)
              | (calls, Inr results) \<Rightarrow>
                  (calls,
                   Responded 200
                     (JObj [(''status'', JStr ''success''),
                            (''chunks'', JNum (show_nat (length results))),
                            (''results'', JArr results)])))))"

section \<open>Notions used to state the properties\<close>

text \<open>
  A payload is plain when no object in it, at any depth, has a key \<open>toString\<close>: then every
  conversion to a string returns.
\<close>

fun plain :: "jsval \<Rightarrow> bool" where
  "plain (JObj kvs) = (''toString'' \<notin> set (map fst kvs) \<and> list_all (\<lambda>kv. plain (snd kv)) kvs)"
| "plain (JArr xs) = list_all plain xs"
| "plain v = True"

text \<open>
  A value that is defined, not \<^verbatim>\<open>null\<close> and whose rendering is not made of white space
  only; the value of the first of a list of paths that holds one; and a payload that carries
  a value at the \<open>i\<close>-th path with none at the paths before it.
\<close>

definition defined_nonblank :: "jsval \<Rightarrow> bool" where
  "defined_nonblank v = (v \<noteq> JUndef \<and> v \<noteq> JNull \<and> \<not> list_all is_ws (rendered v))"

definition first_acceptable :: "jsval \<Rightarrow> string list \<Rightarrow> jsval" where
  "first_acceptable payload ps =
     (case find (\<lambda>p. defined_nonblank (resolve_path payload p)) ps of
        None \<Rightarrow> JUndef
      | Some p \<Rightarrow> resolve_path payload p)"


text \<open>
  Primitive values are compared by \<^verbatim>\<open>Set\<close> as equality compares them. \<open>js_distinct\<close> is a
  list without two places that \<^verbatim>\<open>Set\<close> takes for the same.
\<close>

fun primitive :: "jsval \<Rightarrow> bool" where
  "primitive (JArr xs) = False"
| "primitive (JObj kvs) = False"
| "primitive v = True"

fun js_distinct :: "jsval list \<Rightarrow> bool" where
  "js_distinct [] = True"
| "js_distinct (x # xs) = (\<not> list_ex (same_value_zero x) xs \<and> js_distinct xs)"

text \<open>
  A list with, of every element that occurs several times, only the last occurrence; and a
  list of values with, of every primitive value that occurs several times, only the first
  occurrence (arrays and objects all stay).
\<close>

fun last_occurrences :: "'a list \<Rightarrow> 'a list" where
  "last_occurrences [] = []"
| "last_occurrences (x # xs) =
     (if x \<in> set xs then last_occurrences xs else x # last_occurrences xs)"

function first_occurrences :: "jsval list \<Rightarrow> jsval list" where
  "first_occurrences [] = []"
| "first_occurrences (x # xs) =
     x # first_occurrences (if primitive x then filter (\<lambda>y. y \<noteq> x) xs else xs)"
  by pat_completeness auto
termination
  by (relation "measure length") (auto simp: less_Suc_eq_le)

text \<open>
  The default tags that are not among the tags found in the payload: of each, the last
  occurrence in the default list.
\<close>

definition new_defaults :: "string list \<Rightarrow> jsval list \<Rightarrow> string list" where
  "new_defaults defaultTags found =
     last_occurrences (filter (\<lambda>d. JStr d \<notin> set found) defaultTags)"

fun is_array :: "jsval \<Rightarrow> bool" where
  "is_array (JArr xs) = True"
| "is_array v = False"

text \<open>The keys that a contact object can have.\<close>

definition contact_keys :: "string list" where
  "contact_keys = [''email'', ''phone'', ''firstName'', ''lastName'', ''tags'', ''locationId'']"

text \<open>
  The secret that a request presents: the first truthy one of the header, the query parameter
  and the body field.
\<close>

definition presented_secret :: "request \<Rightarrow> jsval option" where
  "presented_secret req =
     find truthy
       [x_shared_secret req, query_secret req,
        (if truthy (body req) then get_prop (body req) ''secret'' else JUndef)]"

text \<open>The places where the later revision looks for an email and for a phone.\<close>

definition ghl_aliases :: "jsval \<Rightarrow> jsval list" where
  "ghl_aliases payload =
     [get_prop payload ''email'', opt_member (get_prop payload ''contact'') ''email'',
      get_prop payload ''phone'', opt_member (get_prop payload ''contact'') ''phone'']"

text \<open>
  The three calls of the single-contact upsert, written out: the search for an email, the
  partial update of the record with a given id, and the creation.
\<close>

definition search_call :: "string option \<Rightarrow> (string \<times> jsval) list \<Rightarrow> jsval \<Rightarrow> http_call" where
  "search_call token props mail =
     HttpCall ''POST'' ''https://api.hubapi.com/crm/v3/objects/contacts/search''
       [(''Authorization'', ''Bearer '' @ env_str token), (''Content-Type'', ''application/json'')]
       (JObj [(''filterGroups'',
                 JArr [JObj [(''filters'',
                                JArr [JObj [(''propertyName'', JStr ''email''),
                                            (''operator'', JStr ''EQ''),
                                            (''value'', mail)]])]]),
              (''properties'', JArr (map JStr (map fst props))),
              (''limit'', JNum ''1'')])"

definition update_call :: "string option \<Rightarrow> (string \<times> jsval) list \<Rightarrow> string \<Rightarrow> http_call" where
  "update_call token props ident =
     HttpCall ''PATCH'' (''https://api.hubapi.com/crm/v3/objects/contacts/'' @ ident)
       [(''Authorization'', ''Bearer '' @ env_str token), (''Content-Type'', ''application/json'')]
       (JObj [(''properties'', JObj props)])"

definition create_call :: "string option \<Rightarrow> (string \<times> jsval) list \<Rightarrow> http_call" where
  "create_call token props =
     HttpCall ''POST'' ''https://api.hubapi.com/crm/v3/objects/contacts''
       [(''Authorization'', ''Bearer '' @ env_str token), (''Content-Type'', ''application/json'')]
       (JObj [(''properties'', JObj props)])"

text \<open>The property names of the two marketing-platform normalizers.\<close>

definition hubspot_keys :: "string list" where
  "hubspot_keys =
     [''email'', ''firstname'', ''lastname'', ''phone'', ''source'',
      ''investor_archetype_ppt_frequency'', ''investor_archetype_ppt_profile'',
      ''investor_archetype_free_ppt_frequency'']"

definition operatingframe_keys :: "string list" where
  "operatingframe_keys =
     [''email'', ''firstname'', ''lastname'', ''phone'', ''Source'',
      ''FreeOperatingFrameFrequency'', ''FreeOperatingFrameTest'']"

text \<open>
  A field is absent when every key read for it holds \<^verbatim>\<open>null\<close> or \<^verbatim>\<open>undefined\<close>;
  \<open>or_empty\<close> is the default of the parameter \<^verbatim>\<open>raw = {}\<close>.
\<close>

definition absent :: "jsval \<Rightarrow> string list \<Rightarrow> bool" where
  "absent v ks = list_all (\<lambda>k. nullish (get_prop v k)) ks"

definition or_empty :: "jsval \<Rightarrow> jsval" where
  "or_empty arg = (if arg = JUndef then JObj [] else arg)"

definition operatingframe_contact :: "jsval \<Rightarrow> jsval" where
  "operatingframe_contact raw = coalesce (get_prop raw ''contact'') raw"



text \<open>
  The batch call of a group: one input for each contact, with \<open>email\<close> as the id property
  and the normalized properties. A result of \<^verbatim>\<open>await\<close> is resolved or rejected.
\<close>

definition hubspot_props :: "jsval \<Rightarrow> (string \<times> jsval) list" where
  "hubspot_props c = (case normalizeHubSpotContact c of Inl err \<Rightarrow> [] | Inr props \<Rightarrow> props)"

definition batch_input :: "jsval \<Rightarrow> jsval" where
  "batch_input c = JObj [(''idProperty'', JStr ''email''), (''properties'', JObj (hubspot_props c))]"

definition group_call :: "string option \<Rightarrow> jsval list \<Rightarrow> http_call" where
  "group_call token g = batch_call token (map batch_input g)"




definition batch_success :: "nat \<Rightarrow> jsval list \<Rightarrow> handler_end" where
  "batch_success n results =
     Responded 200
       (JObj [(''status'', JStr ''success''), (''chunks'', JNum (show_nat n)),
              (''results'', JArr results)])"

section \<open>Alias precedence\<close>

lemma js_String_stringable: "stringable v \<Longrightarrow> js_String v = Inr (rendered v)"
  by (simp add: js_String_def)


lemma trim_Nil_iff: "trim s = [] \<longleftrightarrow> list_all is_ws s"
proof
  assume "trim s = []"
  then have a: "\<forall>c\<in>set (dropWhile is_ws s). is_ws c"
    by (simp add: trim_def dropWhile_eq_Nil_conv)
  have "dropWhile is_ws s = []"
  proof (rule ccontr)
    assume ne: "dropWhile is_ws s \<noteq> []"
    then have "\<not> is_ws (hd (dropWhile is_ws s))" by (rule hd_dropWhile)
    moreover have "hd (dropWhile is_ws s) \<in> set (dropWhile is_ws s)" using ne by simp
    ultimately show False using a by blast
  qed
  then show "list_all is_ws s" by (simp add: dropWhile_eq_Nil_conv list_all_iff)
next
  assume "list_all is_ws s"
  then have "dropWhile is_ws s = []" by (simp add: dropWhile_eq_Nil_conv list_all_iff)
  then have "trim s = rev (dropWhile is_ws (rev []))" by (simp only: trim_def)
  then show "trim s = []" by simp
qed

lemma pick_ok_stringable: "stringable v \<Longrightarrow> pick_ok v = Inr (defined_nonblank v)"
  by (auto simp: pick_ok_def defined_nonblank_def js_String_def trim_Nil_iff)

lemma pick_ok_Inr: "pick_ok v = Inr b \<Longrightarrow> b = defined_nonblank v"
  by (auto simp: pick_ok_def defined_nonblank_def js_String_def trim_Nil_iff
      split: if_splits)

lemma pick_ok_True: "pick_ok v = Inr True \<Longrightarrow> stringable v \<and> defined_nonblank v"
  by (auto simp: pick_ok_def defined_nonblank_def js_String_def trim_Nil_iff
      split: if_splits)

lemma pick_Inr: "pick payload ps = Inr v \<Longrightarrow> v = first_acceptable payload ps"
proof (induction ps)
  case Nil
  then show ?case by (simp add: first_acceptable_def)
next
  case (Cons p ps)
  show ?case
  proof (cases "pick_ok (resolve_path payload p)")
    case (Inl err)
    with Cons.prems show ?thesis by simp
  next
    case (Inr ok)
    from pick_ok_Inr [OF Inr] have ok: "ok = defined_nonblank (resolve_path payload p)" .
    show ?thesis
    proof (cases ok)
      case True
      with Inr Cons.prems ok show ?thesis by (simp add: first_acceptable_def)
    next
      case False
      with Inr Cons.prems have "pick payload ps = Inr v" by simp
      from Cons.IH [OF this] False ok show ?thesis by (simp add: first_acceptable_def)
    qed
  qed
qed

lemma pick_total:
  "list_all (\<lambda>p. stringable (resolve_path payload p)) ps \<Longrightarrow>
   pick payload ps = Inr (first_acceptable payload ps)"
  by (induction ps) (simp_all add: first_acceptable_def pick_ok_stringable)

lemma pick_result: "pick payload ps = Inr v \<Longrightarrow> v = JUndef \<or> pick_ok v = Inr True"
proof (induction ps)
  case Nil
  then show ?case by simp
next
  case (Cons p ps)
  then show ?case
    by (cases "pick_ok (resolve_path payload p)") (auto split: if_splits)
qed


lemma plain_stringable: "plain v \<Longrightarrow> stringable v"
  by (induction v) (auto simp: list_all_iff)

lemma plain_get_prop: "plain v \<Longrightarrow> plain (get_prop v k)"
proof (cases v)
  case (JObj kvs)
  assume "plain v"
  with JObj show ?thesis
    by (auto simp: list_all_iff split: option.splits dest!: map_of_SomeD)
next
  case (JArr xs)
  assume "plain v"
  with JArr show ?thesis
    by (auto simp: list_all_iff index_of_key_def find_Some_iff split: option.splits)
qed (auto split: option.splits)

lemma plain_resolve_path: "plain v \<Longrightarrow> plain (resolve_path v p)"
proof -
  have "plain a \<Longrightarrow>
        plain (foldl (\<lambda>obj k. if truthy obj \<and> get_prop obj k \<noteq> JUndef then get_prop obj k else JUndef)
                 a ks)" for a ks
    by (induction ks arbitrary: a) (auto simp: plain_get_prop)
  then show "plain v \<Longrightarrow> plain (resolve_path v p)" by (simp add: resolve_path_def)
qed

lemma pick_plain: "plain payload \<Longrightarrow> pick payload ps = Inr (first_acceptable payload ps)"
  by (rule pick_total) (simp add: list_all_iff plain_stringable plain_resolve_path)

lemma build_fields:
  assumes "buildContactPayload payload defs loc rx = Inr c"
  shows "pick payload email_paths = Inr (first_acceptable payload email_paths)"
    and "pick payload phone_paths = Inr (first_acceptable payload phone_paths)"
    and "pick payload firstName_paths = Inr (first_acceptable payload firstName_paths)"
    and "pick payload lastName_paths = Inr (first_acceptable payload lastName_paths)"
    and "email c = when_truthy (first_acceptable payload email_paths)"
    and "phone c = when_truthy (first_acceptable payload phone_paths)"
    and "firstName c = when_truthy (first_acceptable payload firstName_paths)"
    and "lastName c = when_truthy (first_acceptable payload lastName_paths)"
    and "locationId c = (case loc of None \<Rightarrow> None | Some l \<Rightarrow> if l \<noteq> [] then Some l else None)"
  using assms
  by (auto simp: buildContactPayload_def Let_def split: sum.splits dest!: pick_Inr)

lemma build_tags:
  assumes "buildContactPayload payload defs loc rx = Inr c"
  shows "\<exists>found. discovered_tags payload rx = Inr found \<and>
           tags c = (if final_tags defs found \<noteq> [] then Some (final_tags defs found) else None)"
  using assms by (auto simp: buildContactPayload_def Let_def split: sum.splits)

lemma build_total:
  "pick payload email_paths = Inr em \<Longrightarrow> pick payload phone_paths = Inr ph \<Longrightarrow>
   pick payload firstName_paths = Inr fn \<Longrightarrow> pick payload lastName_paths = Inr ln \<Longrightarrow>
   discovered_tags payload rx = Inr found \<Longrightarrow>
   \<exists>c. buildContactPayload payload defs loc rx = Inr c"
  by (simp add: buildContactPayload_def Let_def)

lemma plain_entries:
  "object_entries v = Inr es \<Longrightarrow> plain v \<Longrightarrow> list_all (\<lambda>e. plain (snd e)) es"
  by (cases v) (auto simp: list_all_iff dest!: set_zip_rightD)

lemma push_key_tags_total:
  "list_all (\<lambda>e. plain (snd e)) es \<Longrightarrow> list_all plain ts \<Longrightarrow>
   \<exists>r. push_key_tags rx al es ts = Inr r"
proof (induction es arbitrary: ts)
  case Nil
  then show ?case by simp
next
  case (Cons e es)
  obtain k v where e: "e = (k, v)" by (cases e)
  let ?cur = "if al \<and> k = ''tags'' then JArr ts else v"
  from Cons.prems e have "plain ?cur" by simp
  then have s: "js_String ?cur = Inr (rendered ?cur)"
    by (intro js_String_stringable plain_stringable)
  from Cons.prems have es: "list_all (\<lambda>e. plain (snd e)) es" by simp
  have "list_all plain (ts @ [JStr (trim (rendered ?cur))])" using Cons.prems(2) by simp
  from Cons.IH [OF es this] Cons.IH [OF es Cons.prems(2)] s show ?case
    unfolding e by (auto simp: Let_def)
qed

lemma plain_ensureArrayTags: "plain v \<Longrightarrow> list_all plain (ensureArrayTags v)"
  by (cases v) (auto simp: list_all_iff)

lemma discovered_plain:
  assumes "plain payload" and "rx = None \<or> \<not> nullish payload"
  shows "\<exists>found. discovered_tags payload rx = Inr found"
proof -
  let ?v = "first_acceptable payload tags_paths"
  have p: "pick payload tags_paths = Inr ?v" using assms(1) by (rule pick_plain)
  have "plain ?v"
    using assms(1) by (auto simp: first_acceptable_def plain_resolve_path split: option.splits)
  then have t: "list_all plain (ensureArrayTags ?v)" by (rule plain_ensureArrayTags)
  show ?thesis
  proof (cases rx)
    case None
    with p show ?thesis by (simp add: discovered_tags_def Let_def)
  next
    case (Some r)
    with assms(2) obtain es where es: "object_entries payload = Inr es"
      by (cases payload) (auto simp: nullish_def)
    from plain_entries [OF es assms(1)] t push_key_tags_total
    obtain res where "push_key_tags r
        (case resolve_path payload ''tags'' of JArr xs \<Rightarrow> pick_ok (JArr xs) = Inr True | _ \<Rightarrow> False)
        es (ensureArrayTags ?v) = Inr res"
      by blast
    with p es Some show ?thesis by (simp add: discovered_tags_def Let_def)
  qed
qed

lemma build_plain:
  assumes "plain payload" and "rx = None \<or> \<not> nullish payload"
  shows "\<exists>c. buildContactPayload payload defs loc rx = Inr c"
proof -
  from discovered_plain [OF assms] obtain found where "discovered_tags payload rx = Inr found"
    by blast
  with pick_plain [OF assms(1)] show ?thesis by (intro build_total) auto
qed




section \<open>The tag list\<close>

lemma same_value_zero_iff: "same_value_zero x y \<longleftrightarrow> primitive x \<and> x = y"
  by (cases x; cases y) auto

lemma js_includes_iff: "js_includes xs v \<longleftrightarrow> primitive v \<and> v \<in> set xs"
  by (auto simp: js_includes_def list_ex_iff same_value_zero_iff)

lemma js_distinct_iff: "js_distinct xs \<longleftrightarrow> distinct (filter primitive xs)"
  by (induction xs) (auto simp: list_ex_iff same_value_zero_iff)

lemma set_set_add_all: "set (set_add_all seen xs) = set seen \<union> set xs"
  by (induction xs arbitrary: seen) (auto simp: js_includes_iff)

lemma distinct_set_add_all:
  "js_distinct seen \<Longrightarrow> js_distinct (set_add_all seen xs)"
  by (induction xs arbitrary: seen) (auto simp: js_includes_iff js_distinct_iff)

lemma set_add_all_append:
  "set_add_all seen (xs @ ys) = set_add_all (set_add_all seen xs) ys"
  by (induction xs arbitrary: seen) auto

lemma set_add_all_fresh:
  "js_distinct (seen @ xs) \<Longrightarrow> set_add_all seen xs = seen @ xs"
proof (induction xs arbitrary: seen)
  case Nil
  then show ?case by simp
next
  case (Cons x xs)
  from Cons.prems have "\<not> js_includes seen x"
    by (auto simp: js_includes_iff js_distinct_iff)
  moreover from Cons.prems have "js_distinct ((seen @ [x]) @ xs)" by simp
  then have "set_add_all (seen @ [x]) xs = (seen @ [x]) @ xs" by (rule Cons.IH)
  ultimately show ?case by simp
qed

lemma set_add_all_split:
  "set_add_all seen xs = seen @ set_add_all [] (filter (\<lambda>x. \<not> js_includes seen x) xs)"
proof (induction "length xs" arbitrary: xs seen rule: less_induct)
  case less
  show ?case
  proof (cases xs)
    case Nil
    then show ?thesis by simp
  next
    case (Cons x ys)
    show ?thesis
    proof (cases "js_includes seen x")
      case True
      with Cons less [of ys seen] show ?thesis by simp
    next
      case False
      have f: "filter (\<lambda>y. \<not> js_includes (seen @ [x]) y) ys =
               filter (\<lambda>y. \<not> js_includes [x] y) (filter (\<lambda>y. \<not> js_includes seen y) ys)"
        by (induction ys) (auto simp: js_includes_iff)
      have "set_add_all seen xs = set_add_all (seen @ [x]) ys"
        using Cons False by simp
      also have "\<dots> = (seen @ [x]) @ set_add_all [] (filter (\<lambda>y. \<not> js_includes (seen @ [x]) y) ys)"
        using less [of ys "seen @ [x]"] Cons by simp
      also have "\<dots> = seen @ set_add_all [x] (filter (\<lambda>y. \<not> js_includes seen y) ys)"
        using less [of "filter (\<lambda>y. \<not> js_includes seen y) ys" "[x]"] Cons f
        by (simp add: less_Suc_eq_le)
      also have "\<dots> = seen @ set_add_all [] (filter (\<lambda>y. \<not> js_includes seen y) xs)"
        using Cons False by (simp add: js_includes_def)
      finally show ?thesis .
    qed
  qed
qed

lemma js_dedup_first_occurrences: "js_dedup xs = first_occurrences xs"
proof (induction xs rule: first_occurrences.induct)
  case 1
  then show ?case by (simp add: js_dedup_def)
next
  case (2 x xs)
  have f: "filter (\<lambda>y. \<not> js_includes [x] y) xs =
           (if primitive x then filter (\<lambda>y. y \<noteq> x) xs else xs)"
    by (induction xs) (auto simp: js_includes_iff)
  have "js_dedup (x # xs) = set_add_all [x] xs"
    by (simp add: js_dedup_def js_includes_def)
  also have "\<dots> = [x] @ set_add_all [] (filter (\<lambda>y. \<not> js_includes [x] y) xs)"
    by (rule set_add_all_split)
  also have "\<dots> = x # js_dedup (if primitive x then filter (\<lambda>y. y \<noteq> x) xs else xs)"
    by (simp only: f js_dedup_def append_Cons append_Nil)
  finally show ?case using 2 by simp
qed

lemma js_dedup_distinct: "js_distinct (js_dedup xs)"
  by (simp add: js_dedup_def distinct_set_add_all)

lemma set_js_dedup: "set (js_dedup xs) = set xs"
  by (simp add: js_dedup_def set_set_add_all)

lemma js_dedup_id: "js_distinct xs \<Longrightarrow> js_dedup xs = xs"
  using set_add_all_fresh [of "[]" xs] by (simp add: js_dedup_def)

lemma js_distinct_filter: "js_distinct xs \<Longrightarrow> js_distinct (filter P xs)"
  using distinct_filter [of "filter primitive xs" P]
  by (simp add: js_distinct_iff conj_commute)

lemma last_occurrences_remdups: "last_occurrences xs = remdups xs"
  by (induction xs) simp_all

lemma last_occurrences_id: "distinct xs \<Longrightarrow> last_occurrences xs = xs"
  by (simp add: last_occurrences_remdups distinct_remdups_id)

lemma set_new_defaults: "set (new_defaults defs found) = {d \<in> set defs. JStr d \<notin> set found}"
  by (auto simp: new_defaults_def last_occurrences_remdups)

lemma distinct_new_defaults: "distinct (new_defaults defs found)"
  by (simp add: new_defaults_def last_occurrences_remdups)

lemma unshift_defaults_Cons:
  "unshift_defaults (d # ds) ts =
     (if js_includes (unshift_defaults ds ts) (JStr d) then unshift_defaults ds ts
      else JStr d # unshift_defaults ds ts)"
  by (simp add: unshift_defaults_def)

lemma unshift_defaults_Nil: "unshift_defaults [] ts = ts"
  by (simp add: unshift_defaults_def)

lemma unshift_defaults_eq:
  "unshift_defaults defs found = map JStr (new_defaults defs found) @ found"
proof (induction defs)
  case Nil
  then show ?case by (simp add: unshift_defaults_Nil new_defaults_def)
next
  case (Cons d ds)
  have inj: "JStr d \<in> JStr ` A \<longleftrightarrow> d \<in> A" for A by auto
  show ?case
    using Cons
    by (auto simp: unshift_defaults_Cons js_includes_iff new_defaults_def inj
        last_occurrences_remdups)
qed

lemma final_tags_eq:
  "final_tags defs found =
     map JStr (filter (\<lambda>d. d \<noteq> []) (new_defaults defs found)) @ filter truthy (js_dedup found)"
proof -
  let ?A = "map JStr (new_defaults defs found)"
  have dA: "js_distinct ?A"
    by (simp add: js_distinct_iff distinct_new_defaults distinct_map inj_on_def)
  have "js_dedup (?A @ found) = set_add_all ?A found"
    using set_add_all_fresh [of "[]" ?A] dA by (simp add: js_dedup_def set_add_all_append)
  also have "\<dots> = ?A @ set_add_all [] (filter (\<lambda>x. \<not> js_includes ?A x) found)"
    by (rule set_add_all_split)
  also have "filter (\<lambda>x. \<not> js_includes ?A x) found = found"
    by (rule filter_True) (auto simp: js_includes_iff set_new_defaults)
  finally have "js_dedup (?A @ found) = ?A @ js_dedup found" by (simp add: js_dedup_def)
  moreover have "filter truthy ?A = map JStr (filter (\<lambda>d. d \<noteq> []) (new_defaults defs found))"
    by (induction "new_defaults defs found") (auto simp: filter_map comp_def)
  ultimately show ?thesis by (simp add: final_tags_def unshift_defaults_eq)
qed

lemma final_tags_first_occurrences:
  "final_tags defs found =
     filter truthy (first_occurrences (map JStr (new_defaults defs found) @ found))"
  by (simp add: final_tags_def unshift_defaults_eq js_dedup_first_occurrences)

lemma final_tags_props:
  "js_distinct (final_tags defs found)"
  "\<forall>t\<in>set (final_tags defs found). truthy t"
  "set (final_tags defs found) = {t \<in> JStr ` set defs \<union> set found. truthy t}"
    apply (simp add: final_tags_def js_distinct_filter js_dedup_distinct)
   apply (simp add: final_tags_def)
  apply (auto simp: final_tags_def set_js_dedup unshift_defaults_eq set_new_defaults)
  done

lemma final_tags_idem: "final_tags defs (final_tags defs found) = final_tags defs found"
proof -
  let ?T = "final_tags defs found"
  have "filter (\<lambda>d. d \<noteq> []) (new_defaults defs ?T) = []"
    by (auto simp: filter_empty_conv set_new_defaults final_tags_props(3))
  moreover have "filter truthy (js_dedup ?T) = ?T"
    using final_tags_props(1,2) [of defs found] by (simp add: js_dedup_id)
  ultimately show ?thesis using final_tags_eq [of defs ?T] by simp
qed

text \<open>
  C10, as the code has it: the elements of an inbound tag array that are arrays or objects are
  never taken for repetitions of one another, so a tag list can hold the same value twice.
\<close>

theorem repeated_array_tag_counterexample:
  "buildContactPayload (JObj [(''tags'', JArr [JArr [JStr ''a''], JArr [JStr ''a'']])])
     [] None None =
     Inr \<lparr>email = None, phone = None, firstName = None, lastName = None,
           tags = Some [JArr [JStr ''a''], JArr [JStr ''a'']], locationId = None\<rparr> \<and>
   \<not> distinct [JArr [JStr ''a''], JArr [JStr ''a'']]"
  by code_simp

text \<open>
  C10, amended. When the contact that normalization returns has a tags field, its list is not
  empty, its primitive elements (strings, numbers, booleans) are pairwise different, none of
  its elements is falsy and the empty string is not in it. The field is left out exactly when
  the final list (the new default tags followed by the tags found, first occurrences only,
  falsy elements dropped) is empty.
\<close>

theorem tags_field_invariant:
  "buildContactPayload payload defs loc rx = Inr c \<longrightarrow>
     (\<forall>ts. tags c = Some ts \<longrightarrow>
        ts \<noteq> [] \<and> distinct (filter primitive ts) \<and> list_all truthy ts \<and> JStr [] \<notin> set ts) \<and>
     (\<exists>found. discovered_tags payload rx = Inr found \<and>
        (tags c = None \<longleftrightarrow>
           filter truthy (first_occurrences (map JStr (new_defaults defs found) @ found)) = []))"
proof
  assume b: "buildContactPayload payload defs loc rx = Inr c"
  from build_tags [OF b] obtain found where
    d: "discovered_tags payload rx = Inr found" and
    t: "tags c = (if final_tags defs found \<noteq> [] then Some (final_tags defs found) else None)"
    by blast
  have "ts \<noteq> [] \<and> distinct (filter primitive ts) \<and> list_all truthy ts \<and> JStr [] \<notin> set ts"
    if "tags c = Some ts" for ts
  proof -
    from that t have e: "ts = final_tags defs found" and ne: "ts \<noteq> []"
      by (auto split: if_splits)
    have "js_distinct ts" by (simp add: e final_tags_props(1))
    moreover have tr: "list_all truthy ts"
      using final_tags_props(2) [of defs found] e by (simp add: list_all_iff)
    moreover have "JStr [] \<notin> set ts" using tr by (auto simp: list_all_iff)
    ultimately show ?thesis using ne by (simp add: js_distinct_iff)
  qed
  then have A: "\<forall>ts. tags c = Some ts \<longrightarrow>
        ts \<noteq> [] \<and> distinct (filter primitive ts) \<and> list_all truthy ts \<and> JStr [] \<notin> set ts"
    by blast
  have "discovered_tags payload rx = Inr found \<and>
        (tags c = None \<longleftrightarrow>
           filter truthy (first_occurrences (map JStr (new_defaults defs found) @ found)) = [])"
    using d t by (simp add: final_tags_first_occurrences)
  then have B: "\<exists>found. discovered_tags payload rx = Inr found \<and>
        (tags c = None \<longleftrightarrow>
           filter truthy (first_occurrences (map JStr (new_defaults defs found) @ found)) = [])"
    by (rule exI)
  show "(\<forall>ts. tags c = Some ts \<longrightarrow>
        ts \<noteq> [] \<and> distinct (filter primitive ts) \<and> list_all truthy ts \<and> JStr [] \<notin> set ts) \<and>
     (\<exists>found. discovered_tags payload rx = Inr found \<and>
        (tags c = None \<longleftrightarrow>
           filter truthy (first_occurrences (map JStr (new_defaults defs found) @ found)) = []))"
    by (rule conjI [OF A B])
qed

theorem tags_field_invariant_witness:
  "buildContactPayload (JObj [(''tags'', JArr [JStr ''vip'', JStr [], JStr ''vip''])])
     [''From Account A''] None (Some competency_coach) =
     Inr \<lparr>email = None, phone = None, firstName = None, lastName = None,
           tags = Some [JStr ''From Account A'', JStr ''vip''], locationId = None\<rparr> \<and>
   distinct (filter primitive [JStr ''From Account A'', JStr ''vip'']) \<and>
   list_all truthy [JStr ''From Account A'', JStr ''vip''] \<and>
   JStr [] \<notin> set [JStr ''From Account A'', JStr ''vip'']"
proof -
  let ?p = "JObj [(''tags'', JArr [JStr ''vip'', JStr [], JStr ''vip''])]"
  let ?c = "\<lparr>email = None, phone = None, firstName = None, lastName = None,
           tags = Some [JStr ''From Account A'', JStr ''vip''], locationId = None\<rparr>"
  have b: "buildContactPayload ?p [''From Account A''] None (Some competency_coach) = Inr ?c"
    by code_simp
  from tags_field_invariant [of ?p "[''From Account A'']" None "Some competency_coach" ?c] b
  have "distinct (filter primitive [JStr ''From Account A'', JStr ''vip'']) \<and>
        list_all truthy [JStr ''From Account A'', JStr ''vip''] \<and>
        JStr [] \<notin> set [JStr ''From Account A'', JStr ''vip'']"
    by simp
  with b show ?thesis by simp
qed

text \<open>
  C2, as the code has it: a default tag that is already among the tags found in the payload is
  not moved to the front. Here \<open>D\<close> is a default tag and stays behind \<open>x\<close>.
\<close>

theorem default_tags_not_moved_counterexample:
  "buildContactPayload (JObj [(''tags'', JArr [JStr ''x'', JStr ''D''])]) [''D''] None None =
     Inr \<lparr>email = None, phone = None, firstName = None, lastName = None,
           tags = Some [JStr ''x'', JStr ''D''], locationId = None\<rparr>"
  by code_simp

text \<open>
  C2, amended. The default tags that are not among the tags found in the payload are put in
  front of these, each once, in the order of their last occurrences in the default list (the
  order of the default list when it has no repetitions: \<open>A\<close>, \<open>B\<close>, \<open>A\<close> gives \<open>B\<close>, \<open>A\<close>). Of
  the combined sequence the first occurrence of each primitive element is kept (elements that
  are arrays or objects all stay) and falsy elements, the empty string among them, are
  dropped; the tags field is this list, and is left out when the list is empty. So the final
  list is those default tags that are new and not empty, followed by the found tags without
  repetitions and falsy elements; a default tag that was found keeps the place where it was
  found. Without a pattern the tags found are those of the first acceptable of \<open>tags\<close> and
  \<open>contact.tags\<close>. With no default tags and the inbound tags \<open>a, b ,a\<close> the list is \<open>a\<close>, \<open>b\<close>.
\<close>

theorem final_tag_list:
  "(buildContactPayload payload defs loc rx = Inr c \<longrightarrow>
      (\<exists>found. discovered_tags payload rx = Inr found \<and>
         (rx = None \<longrightarrow>
            found = ensureArrayTags (first_acceptable payload [''tags'', ''contact.tags''])) \<and>
         tags c =
           (if filter truthy (first_occurrences (map JStr (new_defaults defs found) @ found)) = []
            then None
            else Some (filter truthy
                   (first_occurrences (map JStr (new_defaults defs found) @ found)))) \<and>
         filter truthy (first_occurrences (map JStr (new_defaults defs found) @ found)) =
           map JStr (filter (\<lambda>d. d \<noteq> []) (new_defaults defs found)) @
           filter truthy (first_occurrences found) \<and>
         (distinct defs \<longrightarrow>
            new_defaults defs found = filter (\<lambda>d. JStr d \<notin> set found) defs))) \<and>
   buildContactPayload (JObj [(''tags'', JStr ''a, b ,a'')]) [] None None =
     Inr \<lparr>email = None, phone = None, firstName = None, lastName = None,
           tags = Some [JStr ''a'', JStr ''b''], locationId = None\<rparr> \<and>
   buildContactPayload (JObj [(''tags'', JArr [JStr ''x''])]) [''A'', ''B'', ''A''] None None =
     Inr \<lparr>email = None, phone = None, firstName = None, lastName = None,
           tags = Some [JStr ''B'', JStr ''A'', JStr ''x''], locationId = None\<rparr>"
proof (intro conjI impI)
  assume b: "buildContactPayload payload defs loc rx = Inr c"
  from build_tags [OF b] obtain found where
    d: "discovered_tags payload rx = Inr found" and
    t: "tags c = (if final_tags defs found \<noteq> [] then Some (final_tags defs found) else None)"
    by blast
  let ?T = "filter truthy (first_occurrences (map JStr (new_defaults defs found) @ found))"
  have T: "final_tags defs found = ?T" by (rule final_tags_first_occurrences)
  show "\<exists>found. discovered_tags payload rx = Inr found \<and>
         (rx = None \<longrightarrow>
            found = ensureArrayTags (first_acceptable payload [''tags'', ''contact.tags''])) \<and>
         tags c =
           (if filter truthy (first_occurrences (map JStr (new_defaults defs found) @ found)) = []
            then None
            else Some (filter truthy
                   (first_occurrences (map JStr (new_defaults defs found) @ found)))) \<and>
         filter truthy (first_occurrences (map JStr (new_defaults defs found) @ found)) =
           map JStr (filter (\<lambda>d. d \<noteq> []) (new_defaults defs found)) @
           filter truthy (first_occurrences found) \<and>
         (distinct defs \<longrightarrow>
            new_defaults defs found = filter (\<lambda>d. JStr d \<notin> set found) defs)"
  proof (intro exI conjI impI)
    show "discovered_tags payload rx = Inr found" by (rule d)
    show "found = ensureArrayTags (first_acceptable payload [''tags'', ''contact.tags''])"
      if "rx = None"
    proof -
      from d that obtain v where v: "pick payload tags_paths = Inr v"
        and f: "found = ensureArrayTags v"
        by (auto simp: discovered_tags_def Let_def split: sum.splits)
      from pick_Inr [OF v] f show ?thesis by (simp add: tags_paths_def)
    qed
    show "tags c = (if ?T = [] then None else Some ?T)"
      using t by (simp only: T) simp
    show "?T = map JStr (filter (\<lambda>d. d \<noteq> []) (new_defaults defs found)) @
           filter truthy (first_occurrences found)"
      using final_tags_eq [of defs found]
      by (simp only: T js_dedup_first_occurrences)
    show "new_defaults defs found = filter (\<lambda>d. JStr d \<notin> set found) defs"
      if "distinct defs"
      using that by (simp add: new_defaults_def last_occurrences_id)
  qed
next
  show "buildContactPayload (JObj [(''tags'', JStr ''a, b ,a'')]) [] None None =
     Inr \<lparr>email = None, phone = None, firstName = None, lastName = None,
           tags = Some [JStr ''a'', JStr ''b''], locationId = None\<rparr>"
    by code_simp
next
  show "buildContactPayload (JObj [(''tags'', JArr [JStr ''x''])]) [''A'', ''B'', ''A''] None None =
     Inr \<lparr>email = None, phone = None, firstName = None, lastName = None,
           tags = Some [JStr ''B'', JStr ''A'', JStr ''x''], locationId = None\<rparr>"
    by code_simp
qed

theorem final_tag_list_witness:
  "buildContactPayload (JObj [(''tags'', JArr [JStr ''x'', JStr ''D'', JStr ''x''])])
     [''A'', ''D'', ''B''] None None =
     Inr \<lparr>email = None, phone = None, firstName = None, lastName = None,
           tags = Some [JStr ''A'', JStr ''B'', JStr ''x'', JStr ''D''], locationId = None\<rparr> \<and>
   discovered_tags (JObj [(''tags'', JArr [JStr ''x'', JStr ''D'', JStr ''x''])]) None =
     Inr [JStr ''x'', JStr ''D'', JStr ''x''] \<and>
   distinct [''A'', ''D'', ''B''] \<and>
   new_defaults [''A'', ''D'', ''B''] [JStr ''x'', JStr ''D'', JStr ''x''] = [''A'', ''B''] \<and>
   filter truthy (first_occurrences
       (map JStr (new_defaults [''A'', ''D'', ''B''] [JStr ''x'', JStr ''D'', JStr ''x'']) @
        [JStr ''x'', JStr ''D'', JStr ''x''])) =
     map JStr (filter (\<lambda>d. d \<noteq> [])
       (new_defaults [''A'', ''D'', ''B''] [JStr ''x'', JStr ''D'', JStr ''x''])) @
     filter truthy (first_occurrences [JStr ''x'', JStr ''D'', JStr ''x''])"
proof -
  let ?p = "JObj [(''tags'', JArr [JStr ''x'', JStr ''D'', JStr ''x''])]"
  let ?c = "\<lparr>email = None, phone = None, firstName = None, lastName = None,
           tags = Some [JStr ''A'', JStr ''B'', JStr ''x'', JStr ''D''], locationId = None\<rparr>"
  have b: "buildContactPayload ?p [''A'', ''D'', ''B''] None None = Inr ?c" by code_simp
  have d: "discovered_tags ?p None = Inr [JStr ''x'', JStr ''D'', JStr ''x'']" by code_simp
  have di: "distinct [''A'', ''D'', ''B'']" by code_simp
  have n: "new_defaults [''A'', ''D'', ''B''] [JStr ''x'', JStr ''D'', JStr ''x''] = [''A'', ''B'']"
    by code_simp
  from final_tag_list [of ?p "[''A'', ''D'', ''B'']" None None ?c, THEN conjunct1, rule_format, OF b]
  obtain found where f: "discovered_tags ?p None = Inr found"
    and e: "filter truthy (first_occurrences
               (map JStr (new_defaults [''A'', ''D'', ''B''] found) @ found)) =
            map JStr (filter (\<lambda>d. d \<noteq> []) (new_defaults [''A'', ''D'', ''B''] found)) @
            filter truthy (first_occurrences found)"
    by blast
  from f d have "found = [JStr ''x'', JStr ''D'', JStr ''x'']" by (simp only: sum.inject)
  with e have "filter truthy (first_occurrences
       (map JStr (new_defaults [''A'', ''D'', ''B''] [JStr ''x'', JStr ''D'', JStr ''x'']) @
        [JStr ''x'', JStr ''D'', JStr ''x''])) =
     map JStr (filter (\<lambda>d. d \<noteq> [])
       (new_defaults [''A'', ''D'', ''B''] [JStr ''x'', JStr ''D'', JStr ''x''])) @
     filter truthy (first_occurrences [JStr ''x'', JStr ''D'', JStr ''x''])"
    by (simp only:)
  with b d di n show ?thesis by (intro conjI)
qed

section \<open>Tags from matching keys\<close>



lemma push_key_tags_none:
  "\<forall>e\<in>set es. \<not> rx (fst e) \<Longrightarrow> push_key_tags rx al es ts = Inr ts"
  by (induction es arbitrary: ts) (auto simp: Let_def)




section \<open>Normalizing a normalized contact\<close>

lemma map_of_opt_entry: "map_of (opt_entry k v) k' = (if k' = k then v else None)"
  by (cases v) (simp_all add: opt_entry_def)

lemma get_prop_contact:
  "get_prop (contact_to_js c) k =
     (if k = ''email'' then field (email c)
      else if k = ''phone'' then field (phone c)
      else if k = ''firstName'' then field (firstName c)
      else if k = ''lastName'' then field (lastName c)
      else if k = ''tags'' then field (map_option JArr (tags c))
      else if k = ''locationId'' then field (map_option JStr (locationId c))
      else JUndef)"
  by (simp add: contact_to_js_def map_of_append map_add_def map_of_opt_entry field_def
      split: option.splits)

lemma keys_contact: "\<forall>e\<in>set es. fst e \<in> set contact_keys"
  if "contact_to_js c = JObj es"
  using that
  by (auto simp: contact_to_js_def opt_entry_def contact_keys_def split: option.splits)

lemma resolve_top:
  "CHR ''.'' \<notin> set k \<Longrightarrow> split_on CHR ''.'' k = [k]"
  by (induction k) (auto split: list.splits)

lemma resolve_contact_top:
  "CHR ''.'' \<notin> set k \<Longrightarrow> resolve_path (contact_to_js c) k = get_prop (contact_to_js c) k"
  by (simp add: resolve_path_def resolve_top) (simp add: contact_to_js_def)

lemma resolve_contact_nested:
  "resolve_path (contact_to_js c) (''contact.'' @ k) = JUndef"
proof -
  have "split_on CHR ''.'' (''contact.'' @ k) = ''contact'' # split_on CHR ''.'' k"
    by (simp split: list.splits)
  moreover have "foldl (\<lambda>obj k. if truthy obj \<and> get_prop obj k \<noteq> JUndef then get_prop obj k else JUndef)
          JUndef ks = JUndef" for ks
    by (induction ks) auto
  ultimately show ?thesis by (simp add: resolve_path_def get_prop_contact)
qed

lemma pick_ok_JUndef: "pick_ok JUndef = Inr False"
  by (simp add: pick_ok_def)

lemma pick_contact_email:
  "pick_ok (field (email c)) = Inr ok \<Longrightarrow>
   pick (contact_to_js c) email_paths = Inr (if ok then field (email c) else JUndef)"
  using resolve_contact_nested [of c "''email''"] resolve_contact_nested [of c "''email_address''"]
  by (simp add: email_paths_def resolve_contact_top get_prop_contact pick_ok_JUndef)

lemma pick_contact_phone:
  "pick_ok (field (phone c)) = Inr ok \<Longrightarrow>
   pick (contact_to_js c) phone_paths = Inr (if ok then field (phone c) else JUndef)"
  using resolve_contact_nested [of c "''phone''"] resolve_contact_nested [of c "''phone_number''"]
  by (simp add: phone_paths_def resolve_contact_top get_prop_contact pick_ok_JUndef)

lemma pick_contact_firstName:
  "pick_ok (field (firstName c)) = Inr ok \<Longrightarrow>
   pick (contact_to_js c) firstName_paths = Inr (if ok then field (firstName c) else JUndef)"
  using resolve_contact_nested [of c "''first_name''"] resolve_contact_nested [of c "''firstname''"]
  by (simp add: firstName_paths_def resolve_contact_top get_prop_contact pick_ok_JUndef)

lemma pick_contact_lastName:
  "pick_ok (field (lastName c)) = Inr ok \<Longrightarrow>
   pick (contact_to_js c) lastName_paths = Inr (if ok then field (lastName c) else JUndef)"
  using resolve_contact_nested [of c "''last_name''"] resolve_contact_nested [of c "''lastname''"]
  by (simp add: lastName_paths_def resolve_contact_top get_prop_contact pick_ok_JUndef)

lemma pick_contact_tags:
  "pick_ok (field (map_option JArr (tags c))) = Inr ok \<Longrightarrow>
   pick (contact_to_js c) tags_paths =
     Inr (if ok then field (map_option JArr (tags c)) else JUndef)"
  using resolve_contact_nested [of c "''tags''"]
  by (simp add: tags_paths_def resolve_contact_top get_prop_contact pick_ok_JUndef)

lemma picked_field:
  assumes "pick payload ps = Inr v" and "x = when_truthy v"
  shows "pick_ok (field x) = Inr (x \<noteq> None)" and "when_truthy (field x) = x"
proof -
  from pick_result [OF assms(1)] have r: "v = JUndef \<or> pick_ok v = Inr True" .
  show "pick_ok (field x) = Inr (x \<noteq> None)"
    using r assms(2) by (auto simp: when_truthy_def field_def pick_ok_JUndef)
  show "when_truthy (field x) = x"
    using assms(2) by (auto simp: when_truthy_def field_def)
qed

lemma field_again:
  assumes "pick payload ps = Inr v" and "x = when_truthy v"
  shows "when_truthy (if x \<noteq> None then field x else JUndef) = x"
  using picked_field(2) [OF assms] by (cases x) (simp_all add: when_truthy_def)

lemma stringable_ensureArrayTags: "stringable v \<Longrightarrow> list_all stringable (ensureArrayTags v)"
  by (cases v) (auto simp: list_all_iff)

lemma push_key_tags_stringable:
  "push_key_tags rx al es ts = Inr r \<Longrightarrow> list_all stringable ts \<Longrightarrow> list_all stringable r"
proof (induction es arbitrary: ts)
  case Nil
  then show ?case by simp
next
  case (Cons e es)
  obtain k v where e: "e = (k, v)" by (cases e)
  have "list_all stringable (ts @ [JStr x])" for x using Cons.prems(2) by simp
  with Cons.prems Cons.IH [of ts] Cons.IH [of "ts @ [JStr x]" for x]
  show ?case unfolding e by (auto simp: Let_def split: if_splits sum.splits)
qed

lemma discovered_stringable:
  assumes "discovered_tags payload rx = Inr found"
  shows "list_all stringable found"
proof -
  from assms obtain v where v: "pick payload tags_paths = Inr v"
    by (auto simp: discovered_tags_def split: sum.splits)
  from pick_result [OF v] have "stringable v" by (auto dest: pick_ok_True)
  then have s: "list_all stringable (ensureArrayTags v)" by (rule stringable_ensureArrayTags)
  show ?thesis
  proof (cases rx)
    case None
    with assms v s show ?thesis by (simp add: discovered_tags_def Let_def)
  next
    case (Some r)
    with assms v obtain al es where "push_key_tags r al es (ensureArrayTags v) = Inr found"
      by (auto simp: discovered_tags_def Let_def split: sum.splits)
    from push_key_tags_stringable [OF this s] show ?thesis .
  qed
qed

lemma final_tags_stringable:
  "list_all stringable found \<Longrightarrow> stringable (JArr (final_tags defs found))"
  by (auto simp: list_all_iff final_tags_props(3))

lemma join_with_set: "x \<in> set xs \<Longrightarrow> set x \<subseteq> set (join_with sep xs)"
  by (induction sep xs rule: join_with.induct) auto

lemma nonblank_default_renders:
  assumes d: "d \<in> set defs" and nb: "\<not> list_all is_ws d"
  shows "final_tags defs found \<noteq> [] \<and> trim (rendered (JArr (final_tags defs found))) \<noteq> []"
proof -
  from nb have "d \<noteq> []" by auto
  with d have m: "JStr d \<in> set (final_tags defs found)" by (auto simp: final_tags_props(3))
  let ?r = "map (\<lambda>x. if x = JUndef \<or> x = JNull then [] else rendered x) (final_tags defs found)"
  from m have "d \<in> set ?r" by force
  then have "set d \<subseteq> set (join_with '','' ?r)" by (rule join_with_set)
  with nb have "\<not> list_all is_ws (join_with '','' ?r)" by (auto simp: list_all_iff)
  with m show ?thesis by (auto simp: trim_Nil_iff)
qed

text \<open>
  C6, as the code has it: the array of two blank tags is accepted, since its rendering has a
  comma; the list that comes out has one blank tag, renders to a blank string and is not
  accepted when the contact is normalized again.
\<close>

theorem blank_tag_list_counterexample:
  "buildContactPayload (JObj [(''tags'', JArr [JStr '' '', JStr '' ''])]) [] None None =
     Inr \<lparr>email = None, phone = None, firstName = None, lastName = None,
           tags = Some [JStr '' ''], locationId = None\<rparr> \<and>
   buildContactPayload
     (contact_to_js \<lparr>email = None, phone = None, firstName = None, lastName = None,
                     tags = Some [JStr '' ''], locationId = None\<rparr>) [] None None \<noteq>
     Inr \<lparr>email = None, phone = None, firstName = None, lastName = None,
           tags = Some [JStr '' ''], locationId = None\<rparr> \<and>
   buildContactPayload
     (contact_to_js \<lparr>email = None, phone = None, firstName = None, lastName = None,
                     tags = Some [JStr '' ''], locationId = None\<rparr>) [] None None =
     Inr \<lparr>email = None, phone = None, firstName = None, lastName = None,
           tags = None, locationId = None\<rparr>"
  by code_simp

text \<open>
  C6, amended. Normalizing the contact that normalization produced, with the same default
  tags, location id and pattern, gives that contact again, provided that the pattern, if there
  is one, matches none of the six keys of a contact, and that the tag list of the contact, if
  it has one, does not render to a blank string; the latter holds whenever some default tag is
  not blank. Both hold for the handlers, whose default tag is \<open>From Account A\<close> and whose
  pattern is \<open>competency_coach\<close>.
\<close>

theorem renormalize_fixed:
  "buildContactPayload payload defs loc rx = Inr c \<and>
   (\<forall>r. rx = Some r \<longrightarrow> list_all (\<lambda>k. \<not> r k) contact_keys) \<and>
   ((\<exists>d\<in>set defs. \<not> list_all is_ws d) \<or>
    (\<forall>ts. tags c = Some ts \<longrightarrow> trim (rendered (JArr ts)) \<noteq> [])) \<longrightarrow>
     buildContactPayload (contact_to_js c) defs loc rx = Inr c"
proof
  assume h: "buildContactPayload payload defs loc rx = Inr c \<and>
   (\<forall>r. rx = Some r \<longrightarrow> list_all (\<lambda>k. \<not> r k) contact_keys) \<and>
   ((\<exists>d\<in>set defs. \<not> list_all is_ws d) \<or>
    (\<forall>ts. tags c = Some ts \<longrightarrow> trim (rendered (JArr ts)) \<noteq> []))"
  then have b: "buildContactPayload payload defs loc rx = Inr c" by simp
  from build_tags [OF b] obtain found where
    d: "discovered_tags payload rx = Inr found" and
    t: "tags c = (if final_tags defs found \<noteq> [] then Some (final_tags defs found) else None)"
    by blast
  let ?T = "final_tags defs found"
  have sT: "stringable (JArr ?T)"
    by (rule final_tags_stringable) (rule discovered_stringable [OF d])
  have rend: "trim (rendered (JArr ts)) \<noteq> []" if "tags c = Some ts" for ts
  proof -
    from that t have "ts = ?T" by (auto split: if_splits)
    with h that nonblank_default_renders [of _ defs found] show ?thesis by blast
  qed
  let ?P = "contact_to_js c"
  obtain es where es: "?P = JObj es" by (simp add: contact_to_js_def)
  have pt: "\<exists>v. pick ?P tags_paths = Inr v \<and> ensureArrayTags v = ?T"
  proof (cases "tags c")
    case None
    with t have "?T = []" by (auto split: if_splits)
    moreover from None have "pick ?P tags_paths = Inr JUndef"
      using pick_contact_tags [of c False] by (simp add: field_def pick_ok_JUndef)
    ultimately show ?thesis by simp
  next
    case (Some ts)
    with t have e: "ts = ?T" by (auto split: if_splits)
    from rend [OF Some] e sT have "pick_ok (JArr ?T) = Inr True"
      by (simp add: pick_ok_stringable defined_nonblank_def trim_Nil_iff)
    with Some e have "pick ?P tags_paths = Inr (JArr ?T)"
      using pick_contact_tags [of c True] by (simp add: field_def)
    then show ?thesis by simp
  qed
  then obtain pv where pv: "pick ?P tags_paths = Inr pv" and ev: "ensureArrayTags pv = ?T"
    by blast
  have d2: "discovered_tags ?P rx = Inr ?T"
  proof (cases rx)
    case None
    then show ?thesis by (simp add: discovered_tags_def Let_def pv ev)
  next
    case (Some r)
    with h have "list_all (\<lambda>k. \<not> r k) contact_keys" by simp
    with keys_contact [OF es] have "\<forall>e\<in>set es. \<not> r (fst e)" by (auto simp: list_all_iff)
    then have "push_key_tags r al es ?T = Inr ?T" for al by (rule push_key_tags_none)
    moreover have "object_entries ?P = Inr es" by (simp add: es)
    ultimately show ?thesis using Some by (simp add: discovered_tags_def Let_def pv ev)
  qed
  note F = build_fields [OF b]
  have pe: "pick ?P email_paths = Inr (if email c \<noteq> None then field (email c) else JUndef)"
    by (rule pick_contact_email) (rule picked_field(1) [OF F(1) F(5)])
  have pp: "pick ?P phone_paths = Inr (if phone c \<noteq> None then field (phone c) else JUndef)"
    by (rule pick_contact_phone) (rule picked_field(1) [OF F(2) F(6)])
  have pf: "pick ?P firstName_paths =
      Inr (if firstName c \<noteq> None then field (firstName c) else JUndef)"
    by (rule pick_contact_firstName) (rule picked_field(1) [OF F(3) F(7)])
  have pl: "pick ?P lastName_paths =
      Inr (if lastName c \<noteq> None then field (lastName c) else JUndef)"
    by (rule pick_contact_lastName) (rule picked_field(1) [OF F(4) F(8)])
  have "buildContactPayload ?P defs loc rx =
      Inr \<lparr>email = email c, phone = phone c, firstName = firstName c, lastName = lastName c,
            tags = tags c, locationId = locationId c\<rparr>"
    using field_again [OF F(1) F(5)] field_again [OF F(2) F(6)]
      field_again [OF F(3) F(7)] field_again [OF F(4) F(8)] F(9) t
    by (simp add: buildContactPayload_def d2 final_tags_idem pe pp pf pl)
  then show "buildContactPayload (contact_to_js c) defs loc rx = Inr c" by simp
qed

theorem renormalize_fixed_witness:
  "buildContactPayload
     (JObj [(''contact'', JObj [(''email'', JStr ''a@b.c''), (''first_name'', JStr ''Al'')]),
            (''tags'', JStr ''vip, ,new''), (''competency_coach_1'', JStr '' done '')])
     [''From Account A''] (Some ''loc1'') (Some competency_coach) =
     Inr \<lparr>email = Some (JStr ''a@b.c''), phone = None, firstName = Some (JStr ''Al''),
           lastName = None,
           tags = Some [JStr ''From Account A'', JStr ''vip'', JStr ''new'', JStr ''done''],
           locationId = Some ''loc1''\<rparr> \<and>
   list_all (\<lambda>k. \<not> competency_coach k) contact_keys \<and>
   (\<exists>d\<in>set [''From Account A'']. \<not> list_all is_ws d) \<and>
   buildContactPayload
     (contact_to_js
        \<lparr>email = Some (JStr ''a@b.c''), phone = None, firstName = Some (JStr ''Al''),
          lastName = None,
          tags = Some [JStr ''From Account A'', JStr ''vip'', JStr ''new'', JStr ''done''],
          locationId = Some ''loc1''\<rparr>)
     [''From Account A''] (Some ''loc1'') (Some competency_coach) =
     Inr \<lparr>email = Some (JStr ''a@b.c''), phone = None, firstName = Some (JStr ''Al''),
           lastName = None,
           tags = Some [JStr ''From Account A'', JStr ''vip'', JStr ''new'', JStr ''done''],
           locationId = Some ''loc1''\<rparr>"
proof -
  let ?p = "JObj [(''contact'', JObj [(''email'', JStr ''a@b.c''), (''first_name'', JStr ''Al'')]),
            (''tags'', JStr ''vip, ,new''), (''competency_coach_1'', JStr '' done '')]"
  let ?c = "\<lparr>email = Some (JStr ''a@b.c''), phone = None, firstName = Some (JStr ''Al''),
           lastName = None,
           tags = Some [JStr ''From Account A'', JStr ''vip'', JStr ''new'', JStr ''done''],
           locationId = Some ''loc1''\<rparr>"
  have 1: "buildContactPayload ?p [''From Account A''] (Some ''loc1'') (Some competency_coach) = Inr ?c"
    by code_simp
  have 2: "list_all (\<lambda>k. \<not> competency_coach k) contact_keys" by code_simp
  have 3: "\<exists>d\<in>set [''From Account A'']. \<not> list_all is_ws d" by code_simp
  from renormalize_fixed [of ?p "[''From Account A'']" "Some ''loc1''" "Some competency_coach" ?c]
    1 2 3
  have "buildContactPayload (contact_to_js ?c) [''From Account A''] (Some ''loc1'')
          (Some competency_coach) = Inr ?c"
    by blast
  with 1 2 3 show ?thesis by blast
qed

section \<open>The shared secret\<close>

lemma presented_secret_None:
  "presented_secret req = None \<Longrightarrow>
   \<not> truthy (js_or (js_or (x_shared_secret req) (query_secret req))
                (js_and (body req) (get_prop (body req) ''secret'')))"
  by (auto simp: presented_secret_def js_or_def js_and_def split: if_splits)

lemma presented_secret_Some:
  "presented_secret req = Some v \<Longrightarrow>
   truthy v \<and>
   js_or (js_or (x_shared_secret req) (query_secret req))
         (js_and (body req) (get_prop (body req) ''secret'')) = v"
  by (auto simp: presented_secret_def js_or_def js_and_def split: if_splits)

lemma assertSharedSecret_cases:
  assumes "env_truthy configured"
  shows "presented_secret req = None \<Longrightarrow> assertSharedSecret configured req = Inr False"
    and "presented_secret req = Some v \<Longrightarrow> stringable v \<Longrightarrow>
         assertSharedSecret configured req = Inr (rendered v = env_str configured)"
    and "presented_secret req = Some v \<Longrightarrow> \<not> stringable v \<Longrightarrow>
         assertSharedSecret configured req =
           Inl (TypeError ''Cannot convert object to primitive value'')"
proof -
  show "presented_secret req = None \<Longrightarrow> assertSharedSecret configured req = Inr False"
    using assms presented_secret_None [of req]
    by (simp add: assertSharedSecret_def Let_def)
  show "presented_secret req = Some v \<Longrightarrow> stringable v \<Longrightarrow>
         assertSharedSecret configured req = Inr (rendered v = env_str configured)"
    using assms presented_secret_Some [of req v]
    by (simp add: assertSharedSecret_def Let_def js_String_def)
  show "presented_secret req = Some v \<Longrightarrow> \<not> stringable v \<Longrightarrow>
         assertSharedSecret configured req =
           Inl (TypeError ''Cannot convert object to primitive value'')"
    using assms presented_secret_Some [of req v]
    by (simp add: assertSharedSecret_def Let_def js_String_def)
qed

text \<open>
  C9, as the code has it: the header is looked at before the query parameter, so a wrong header
  hides a right query parameter and the request is answered 401.
\<close>

theorem earlier_secret_wins_counterexample:
  "js_String (query_secret \<lparr>x_shared_secret = JStr ''other'', query_secret = JStr ''s3cret'',
                            body = JObj [(''email'', JStr ''a@b.c'')]\<rparr>) = Inr ''s3cret'' \<and>
   assertSharedSecret (Some ''s3cret'')
        \<lparr>x_shared_secret = JStr ''other'', query_secret = JStr ''s3cret'',
         body = JObj [(''email'', JStr ''a@b.c'')]\<rparr> = Inr False \<and>
   crm_webhook (Some ''s3cret'') (Some ''key'') None (\<lambda>calls. Resolved JNull)
     \<lparr>x_shared_secret = JStr ''other'', query_secret = JStr ''s3cret'',
      body = JObj [(''email'', JStr ''a@b.c'')]\<rparr> =
     ([], Responded 401
            (JObj [(''status'', JStr ''error''),
                   (''message'', JStr ''Unauthorized (shared secret missing/invalid)'')]))"
  by code_simp

text \<open>
  C9, amended. Without a configured secret every request passes. With one, the secret of a
  request is the first truthy one of the header, the query parameter and the body field: a
  request without one does not pass, and a request with one passes exactly when the string
  form of that secret is the configured value. When that secret cannot be converted to a
  string (an object with a key \<open>toString\<close>, or an array with such an element) the check
  throws, and the handler ends with that exception, without an answer of its own and without
  an outbound call. A request that does not pass is answered 401 with the body
  \<open>{status: 'error', message: 'Unauthorized (shared secret missing/invalid)'}\<close> and nothing
  else is done: no normalization (the answer is the same for a body that cannot be normalized)
  and no outbound call. A request that passes is not answered with that response.
\<close>

theorem shared_secret_gate:
  "(\<not> env_truthy configured \<longrightarrow> assertSharedSecret configured req = Inr True) \<and>
   (env_truthy configured \<longrightarrow>
      (presented_secret req = None \<longrightarrow> assertSharedSecret configured req = Inr False) \<and>
      (presented_secret req = Some v \<and> stringable v \<longrightarrow>
         assertSharedSecret configured req = Inr (rendered v = env_str configured)) \<and>
      (presented_secret req = Some v \<and> \<not> stringable v \<longrightarrow>
         assertSharedSecret configured req =
           Inl (TypeError ''Cannot convert object to primitive value''))) \<and>
   (assertSharedSecret configured req = Inr False \<longrightarrow>
      crm_webhook configured apiKey locId remote req =
        ([], Responded 401
               (JObj [(''status'', JStr ''error''),
                      (''message'', JStr ''Unauthorized (shared secret missing/invalid)'')]))) \<and>
   (assertSharedSecret configured req = Inr True \<longrightarrow>
      snd (crm_webhook configured apiKey locId remote req) \<noteq> unauthorized) \<and>
   (assertSharedSecret configured req = Inl err \<longrightarrow>
      crm_webhook configured apiKey locId remote req = ([], Unhandled err))"
proof (intro conjI impI)
  assume "\<not> env_truthy configured"
  then show "assertSharedSecret configured req = Inr True" by (simp add: assertSharedSecret_def)
next
  assume "env_truthy configured" and "presented_secret req = None"
  then show "assertSharedSecret configured req = Inr False"
    by (rule assertSharedSecret_cases(1))
next
  assume e: "env_truthy configured" and "presented_secret req = Some v \<and> stringable v"
  then have "presented_secret req = Some v" and "stringable v" by simp_all
  with e show "assertSharedSecret configured req = Inr (rendered v = env_str configured)"
    by (rule assertSharedSecret_cases(2))
next
  assume e: "env_truthy configured" and "presented_secret req = Some v \<and> \<not> stringable v"
  then have "presented_secret req = Some v" and "\<not> stringable v" by simp_all
  with e show "assertSharedSecret configured req =
           Inl (TypeError ''Cannot convert object to primitive value'')"
    by (rule assertSharedSecret_cases(3))
next
  assume "assertSharedSecret configured req = Inr False"
  then show "crm_webhook configured apiKey locId remote req =
        ([], Responded 401
               (JObj [(''status'', JStr ''error''),
                      (''message'', JStr ''Unauthorized (shared secret missing/invalid)'')]))"
    by (simp add: crm_webhook_def unauthorized_def)
next
  assume "assertSharedSecret configured req = Inr True"
  then show "snd (crm_webhook configured apiKey locId remote req) \<noteq> unauthorized"
    by (auto simp: crm_webhook_def unauthorized_def Let_def split: sum.splits axios_result.splits)
next
  assume "assertSharedSecret configured req = Inl err"
  then show "crm_webhook configured apiKey locId remote req = ([], Unhandled err)"
    by (simp add: crm_webhook_def)
qed

theorem shared_secret_gate_witness:
  "\<not> env_truthy None \<and>
   assertSharedSecret None \<lparr>x_shared_secret = JStr ''any'', query_secret = JUndef, body = JNull\<rparr> =
     Inr True \<and>
   env_truthy (Some ''s3cret'') \<and>
   presented_secret \<lparr>x_shared_secret = JUndef, query_secret = JUndef,
                     body = JObj [(''secret'', JStr ''s3cret'')]\<rparr> = Some (JStr ''s3cret'') \<and>
   stringable (JStr ''s3cret'') \<and>
   assertSharedSecret (Some ''s3cret'')
     \<lparr>x_shared_secret = JUndef, query_secret = JUndef, body = JObj [(''secret'', JStr ''s3cret'')]\<rparr> =
     Inr True \<and>
   snd (crm_webhook (Some ''s3cret'') (Some ''key'') None (\<lambda>calls. Resolved JNull)
     \<lparr>x_shared_secret = JUndef, query_secret = JUndef, body = JObj [(''secret'', JStr ''s3cret'')]\<rparr>)
     \<noteq> unauthorized \<and>
   presented_secret \<lparr>x_shared_secret = JUndef, query_secret = JUndef, body = JNull\<rparr> = None \<and>
   assertSharedSecret (Some ''s3cret'')
     \<lparr>x_shared_secret = JUndef, query_secret = JUndef, body = JNull\<rparr> = Inr False \<and>
   crm_webhook (Some ''s3cret'') (Some ''key'') None (\<lambda>calls. Resolved JNull)
     \<lparr>x_shared_secret = JUndef, query_secret = JUndef, body = JNull\<rparr> =
     ([], Responded 401
            (JObj [(''status'', JStr ''error''),
                   (''message'', JStr ''Unauthorized (shared secret missing/invalid)'')])) \<and>
   presented_secret \<lparr>x_shared_secret = JUndef, query_secret = JUndef,
                     body = JObj [(''secret'', JObj [(''toString'', JNum ''1'')])]\<rparr> =
     Some (JObj [(''toString'', JNum ''1'')]) \<and>
   \<not> stringable (JObj [(''toString'', JNum ''1'')]) \<and>
   crm_webhook (Some ''s3cret'') (Some ''key'') None (\<lambda>calls. Resolved JNull)
     \<lparr>x_shared_secret = JUndef, query_secret = JUndef,
      body = JObj [(''secret'', JObj [(''toString'', JNum ''1'')])]\<rparr> =
     ([], Unhandled (TypeError ''Cannot convert object to primitive value''))"
proof -
  let ?r0 = "\<lparr>x_shared_secret = JStr ''any'', query_secret = JUndef, body = JNull\<rparr>"
  let ?r1 = "\<lparr>x_shared_secret = JUndef, query_secret = JUndef,
                     body = JObj [(''secret'', JStr ''s3cret'')]\<rparr>"
  let ?r2 = "\<lparr>x_shared_secret = JUndef, query_secret = JUndef, body = JNull\<rparr>"
  let ?r3 = "\<lparr>x_shared_secret = JUndef, query_secret = JUndef,
                     body = JObj [(''secret'', JObj [(''toString'', JNum ''1'')])]\<rparr>"
  let ?rem = "\<lambda>calls::http_call list. Resolved JNull"
  let ?err = "TypeError ''Cannot convert object to primitive value''"
  have 1: "\<not> env_truthy None" by code_simp
  have 2: "env_truthy (Some ''s3cret'')" by code_simp
  have 3: "presented_secret ?r1 = Some (JStr ''s3cret'')" by code_simp
  have 4: "stringable (JStr ''s3cret'')" by simp
  have 5: "rendered (JStr ''s3cret'') = env_str (Some ''s3cret'')" by code_simp
  have 6: "presented_secret ?r2 = None" by code_simp
  have 7: "presented_secret ?r3 = Some (JObj [(''toString'', JNum ''1'')])" by code_simp
  have 8: "\<not> stringable (JObj [(''toString'', JNum ''1'')])" by simp
  from shared_secret_gate [of None ?r0] 1
  have a: "assertSharedSecret None ?r0 = Inr True" by blast
  from shared_secret_gate [of "Some ''s3cret''" ?r1 "JStr ''s3cret''"] 2 3 4 5
  have b: "assertSharedSecret (Some ''s3cret'') ?r1 = Inr True" by simp
  from shared_secret_gate [of "Some ''s3cret''" ?r1 _ "Some ''key''" None ?rem] b
  have c: "snd (crm_webhook (Some ''s3cret'') (Some ''key'') None ?rem ?r1) \<noteq> unauthorized"
    by blast
  from shared_secret_gate [of "Some ''s3cret''" ?r2] 2 6
  have d: "assertSharedSecret (Some ''s3cret'') ?r2 = Inr False" by blast
  from shared_secret_gate [of "Some ''s3cret''" ?r2 _ "Some ''key''" None ?rem] d
  have e: "crm_webhook (Some ''s3cret'') (Some ''key'') None ?rem ?r2 =
     ([], Responded 401
            (JObj [(''status'', JStr ''error''),
                   (''message'', JStr ''Unauthorized (shared secret missing/invalid)'')]))"
    by blast
  from shared_secret_gate [of "Some ''s3cret''" ?r3 "JObj [(''toString'', JNum ''1'')]"] 2 7 8
  have f: "assertSharedSecret (Some ''s3cret'') ?r3 = Inl ?err" by blast
  from shared_secret_gate [of "Some ''s3cret''" ?r3 _ "Some ''key''" None ?rem ?err] f
  have g: "crm_webhook (Some ''s3cret'') (Some ''key'') None ?rem ?r3 = ([], Unhandled ?err)"
    by blast
  from 1 a 2 3 4 b c 6 d e 7 8 g show ?thesis by (intro conjI)
qed

section \<open>The marketing platform\<close>

lemma normalize_total:
  "\<not> nullish raw \<Longrightarrow> \<exists>props. normalizeHubSpotContact raw = Inr props"
  by (simp add: normalizeHubSpotContact_def nullish_def Let_def)

lemma normalize_keys:
  "normalizeHubSpotContact raw = Inr props \<Longrightarrow> map fst props = hubspot_keys"
  by (auto simp: normalizeHubSpotContact_def hubspot_keys_def Let_def split: if_splits)

lemma normalize_email:
  "normalizeHubSpotContact raw = Inr props \<Longrightarrow> \<not> nullish raw \<Longrightarrow>
   obj_get props ''email'' = get_prop raw ''email''"
  by (auto simp: normalizeHubSpotContact_def obj_get_def nullish_def Let_def split: if_splits)

lemma search_call_eq:
  "hs_call token ''POST'' ''/crm/v3/objects/contacts/search'' (searchBody props) =
   search_call token props (obj_get props ''email'')"
  by (simp add: search_call_def hs_call_def searchBody_def hubspot_headers_def comp_def)

lemma update_call_eq:
  "hs_call token ''PATCH'' (''/crm/v3/objects/contacts/'' @ s) (JObj [(''properties'', JObj props)]) =
   update_call token props s"
  by (simp add: update_call_def hs_call_def hubspot_headers_def)

lemma create_call_eq:
  "hs_call token ''POST'' ''/crm/v3/objects/contacts'' (JObj [(''properties'', JObj props)]) =
   create_call token props"
  by (simp add: create_call_def hs_call_def hubspot_headers_def)

lemma first_result_eq:
  "first_result found =
     (if nullish found \<or> nullish (get_prop found ''results'') then JNull
      else if truthy (get_prop (get_prop found ''results'') ''0'')
           then get_prop (get_prop found ''results'') ''0'' else JNull)"
  by (simp add: first_result_def opt_member_def js_or_def nullish_def)

text \<open>
  C4. When the email of the body is truthy, the single-contact upsert first issues the search:
  a POST to \<open>https://api.hubapi.com/crm/v3/objects/contacts/search\<close> with the bearer token,
  one filter, the property \<open>email\<close> equal to that email; the properties asked for are the
  names of the normalized contact; the limit is 1. The match is the first element of the
  \<open>results\<close> of the answer, when there is one and it is truthy. When there is a match, the
  calls issued are the search and then the partial update, a PATCH of the normalized
  properties to \<open>https://api.hubapi.com/crm/v3/objects/contacts/\<close> followed by the string form
  of the id of the match, and when the update is answered the response is 200 with status
  \<open>updated\<close> and that id; an id that cannot be converted to a string ends the request with a
  500 after the search alone. When there is no match, the calls issued are the search and
  then the creation, a POST of the normalized properties to
  \<open>https://api.hubapi.com/crm/v3/objects/contacts\<close>, and when the creation is answered (with an
  object) the response is 200 with status \<open>created\<close> and the id of the answer.
\<close>

theorem single_upsert:
  "truthy (get_prop (js_or (body req) (JObj [])) ''email'') \<longrightarrow>
     (\<exists>props search.
        normalizeHubSpotContact (js_or (body req) (JObj [])) = Inr props \<and>
        map fst props =
          [''email'', ''firstname'', ''lastname'', ''phone'', ''source'',
           ''investor_archetype_ppt_frequency'', ''investor_archetype_ppt_profile'',
           ''investor_archetype_free_ppt_frequency''] \<and>
        search =
          HttpCall ''POST'' ''https://api.hubapi.com/crm/v3/objects/contacts/search''
            [(''Authorization'', ''Bearer '' @ env_str token),
             (''Content-Type'', ''application/json'')]
            (JObj [(''filterGroups'',
                      JArr [JObj [(''filters'',
                                     JArr [JObj [(''propertyName'', JStr ''email''),
                                                 (''operator'', JStr ''EQ''),
                                                 (''value'',
                                                  get_prop (js_or (body req) (JObj [])) ''email'')]])]]),
                   (''properties'', JArr (map JStr (map fst props))),
                   (''limit'', JNum ''1'')]) \<and>
        search = search_call token props (get_prop (js_or (body req) (JObj [])) ''email'') \<and>
        (\<exists>rest e. hubspot_upsert token remote req = (search # rest, e)) \<and>
        (\<forall>found.
           first_result found =
             (if nullish found \<or> nullish (get_prop found ''results'') then JNull
              else if truthy (get_prop (get_prop found ''results'') ''0'')
                   then get_prop (get_prop found ''results'') ''0'' else JNull)) \<and>
        (\<forall>found d.
           remote [search] = Resolved found \<and> truthy (first_result found) \<and>
           stringable (get_prop (first_result found) ''id'') \<and>
           remote [search,
                   HttpCall ''PATCH''
                     (''https://api.hubapi.com/crm/v3/objects/contacts/'' @
                      rendered (get_prop (first_result found) ''id''))
                     [(''Authorization'', ''Bearer '' @ env_str token),
                      (''Content-Type'', ''application/json'')]
                     (JObj [(''properties'', JObj props)])] = Resolved d \<longrightarrow>
             hubspot_upsert token remote req =
               ([search,
                 HttpCall ''PATCH''
                   (''https://api.hubapi.com/crm/v3/objects/contacts/'' @
                    rendered (get_prop (first_result found) ''id''))
                   [(''Authorization'', ''Bearer '' @ env_str token),
                    (''Content-Type'', ''application/json'')]
                   (JObj [(''properties'', JObj props)])],
                Responded 200
                  (JObj [(''status'', JStr ''updated''),
                         (''id'', get_prop (first_result found) ''id''), (''data'', d)]))) \<and>
        (\<forall>found d.
           remote [search] = Resolved found \<and> \<not> truthy (first_result found) \<and>
           remote [search,
                   HttpCall ''POST'' ''https://api.hubapi.com/crm/v3/objects/contacts''
                     [(''Authorization'', ''Bearer '' @ env_str token),
                      (''Content-Type'', ''application/json'')]
                     (JObj [(''properties'', JObj props)])] = Resolved d \<and>
           \<not> nullish d \<longrightarrow>
             hubspot_upsert token remote req =
               ([search,
                 HttpCall ''POST'' ''https://api.hubapi.com/crm/v3/objects/contacts''
                   [(''Authorization'', ''Bearer '' @ env_str token),
                    (''Content-Type'', ''application/json'')]
                   (JObj [(''properties'', JObj props)])],
                Responded 200
                  (JObj [(''status'', JStr ''created''), (''id'', get_prop d ''id''),
                         (''data'', d)]))) \<and>
        (\<forall>found.
           remote [search] = Resolved found \<and> truthy (first_result found) \<and>
           stringable (get_prop (first_result found) ''id'') \<longrightarrow>
             fst (hubspot_upsert token remote req) =
               [search,
                update_call token props (rendered (get_prop (first_result found) ''id''))]) \<and>
        (\<forall>found.
           remote [search] = Resolved found \<and> truthy (first_result found) \<and>
           \<not> stringable (get_prop (first_result found) ''id'') \<longrightarrow>
             hubspot_upsert token remote req =
               ([search],
                Responded 500
                  (JObj [(''status'', JStr ''error''),
                         (''error'', JStr ''Cannot convert object to primitive value'')]))) \<and>
        (\<forall>found.
           remote [search] = Resolved found \<and> \<not> truthy (first_result found) \<longrightarrow>
             fst (hubspot_upsert token remote req) = [search, create_call token props]))"
proof
  let ?raw = "js_or (body req) (JObj [])"
  let ?mail = "get_prop ?raw ''email''"
  assume t: "truthy ?mail"
  have nn: "\<not> nullish ?raw" by (auto simp: js_or_def nullish_def)
  from normalize_total [OF nn] obtain props where n: "normalizeHubSpotContact ?raw = Inr props"
    by blast
  note e = normalize_email [OF n nn]
  define search where "search = search_call token props ?mail"
  define update where "update = (\<lambda>s. update_call token props s)"
  define create where "create = create_call token props"
  have sc: "hs_call token ''POST'' ''/crm/v3/objects/contacts/search'' (searchBody props) = search"
    unfolding search_def e [symmetric] by (rule search_call_eq)
  have uc: "hs_call token ''PATCH'' (''/crm/v3/objects/contacts/'' @ s)
              (JObj [(''properties'', JObj props)]) = update s" for s
    unfolding update_def by (rule update_call_eq)
  have cc: "hs_call token ''POST'' ''/crm/v3/objects/contacts''
              (JObj [(''properties'', JObj props)]) = create"
    unfolding create_def by (rule create_call_eq)
  have H: "hubspot_upsert token remote req =
     (case remote [search] of
        Rejected rd message \<Rightarrow> ([search], server_error (error_details rd message))
      | Resolved found \<Rightarrow>
          if truthy (first_result found) then
            (case js_String (get_prop (first_result found) ''id'') of
               Inl err \<Rightarrow> ([search], server_error (thrown_details err))
             | Inr s \<Rightarrow>
                 (case remote [search, update s] of
                    Rejected rd message \<Rightarrow>
                      ([search, update s], server_error (error_details rd message))
                  | Resolved d \<Rightarrow>
                      ([search, update s],
                       Responded 200
                         (JObj [(''status'', JStr ''updated''),
                                (''id'', get_prop (first_result found) ''id''), (''data'', d)]))))
          else
            (case remote [search, create] of
               Rejected rd message \<Rightarrow> ([search, create], server_error (error_details rd message))
             | Resolved d \<Rightarrow>
                 (case member d ''id'' of
                    Inl err \<Rightarrow> ([search, create], server_error (thrown_details err))
                  | Inr i \<Rightarrow>
                      ([search, create],
                       Responded 200
                         (JObj [(''status'', JStr ''created''), (''id'', i), (''data'', d)])))))"
    unfolding hubspot_upsert_def n sum.case Let_def sc uc cc using t e by simp
  have k: "map fst props =
          [''email'', ''firstname'', ''lastname'', ''phone'', ''source'',
           ''investor_archetype_ppt_frequency'', ''investor_archetype_ppt_profile'',
           ''investor_archetype_free_ppt_frequency'']"
    using normalize_keys [OF n] by (simp add: hubspot_keys_def)
  have s: "search =
          HttpCall ''POST'' ''https://api.hubapi.com/crm/v3/objects/contacts/search''
            [(''Authorization'', ''Bearer '' @ env_str token),
             (''Content-Type'', ''application/json'')]
            (JObj [(''filterGroups'',
                      JArr [JObj [(''filters'',
                                     JArr [JObj [(''propertyName'', JStr ''email''),
                                                 (''operator'', JStr ''EQ''),
                                                 (''value'', ?mail)]])]]),
                   (''properties'', JArr (map JStr (map fst props))),
                   (''limit'', JNum ''1'')])"
    by (simp only: search_def search_call_def)
  have ud: "HttpCall ''PATCH'' (''https://api.hubapi.com/crm/v3/objects/contacts/'' @ x)
                     [(''Authorization'', ''Bearer '' @ env_str token),
                      (''Content-Type'', ''application/json'')]
                     (JObj [(''properties'', JObj props)]) = update x" for x
    by (simp only: update_def update_call_def)
  have cd: "HttpCall ''POST'' ''https://api.hubapi.com/crm/v3/objects/contacts''
                     [(''Authorization'', ''Bearer '' @ env_str token),
                      (''Content-Type'', ''application/json'')]
                     (JObj [(''properties'', JObj props)]) = create"
    by (simp only: create_def create_call_def)
  have f: "\<exists>rest e. hubspot_upsert token remote req = (search # rest, e)"
    by (auto simp: H split: axios_result.splits sum.splits)
  have u: "hubspot_upsert token remote req =
               ([search, update (rendered (get_prop (first_result found) ''id''))],
                Responded 200
                  (JObj [(''status'', JStr ''updated''),
                         (''id'', get_prop (first_result found) ''id''), (''data'', d)]))"
    if "remote [search] = Resolved found \<and> truthy (first_result found) \<and>
        stringable (get_prop (first_result found) ''id'') \<and>
        remote [search, update (rendered (get_prop (first_result found) ''id''))] = Resolved d"
    for found d
    using that by (simp add: H js_String_def)
  have c: "hubspot_upsert token remote req =
               ([search, create],
                Responded 200
                  (JObj [(''status'', JStr ''created''), (''id'', get_prop d ''id''),
                         (''data'', d)]))"
    if "remote [search] = Resolved found \<and> \<not> truthy (first_result found) \<and>
           remote [search, create] = Resolved d \<and> \<not> nullish d"
    for found d
    using that by (simp add: H member_def)
  have iu: "fst (hubspot_upsert token remote req) =
               [search, update (rendered (get_prop (first_result found) ''id''))]"
    if "remote [search] = Resolved found \<and> truthy (first_result found) \<and>
        stringable (get_prop (first_result found) ''id'')"
    for found
    using that by (simp add: H js_String_def split: axios_result.splits)
  have it: "hubspot_upsert token remote req =
               ([search],
                Responded 500
                  (JObj [(''status'', JStr ''error''),
                         (''error'', JStr ''Cannot convert object to primitive value'')]))"
    if "remote [search] = Resolved found \<and> truthy (first_result found) \<and>
        \<not> stringable (get_prop (first_result found) ''id'')"
    for found
    using that
    by (simp add: H js_String_def server_error_def thrown_details_def error_details_def js_or_def)
  have ic: "fst (hubspot_upsert token remote req) = [search, create]"
    if "remote [search] = Resolved found \<and> \<not> truthy (first_result found)"
    for found
    using that by (simp add: H split: axios_result.splits sum.splits)
  have fr: "\<forall>found. first_result found =
             (if nullish found \<or> nullish (get_prop found ''results'') then JNull
              else if truthy (get_prop (get_prop found ''results'') ''0'')
                   then get_prop (get_prop found ''results'') ''0'' else JNull)"
    using first_result_eq by blast
  show "\<exists>props search.
        normalizeHubSpotContact (js_or (body req) (JObj [])) = Inr props \<and>
        map fst props =
          [''email'', ''firstname'', ''lastname'', ''phone'', ''source'',
           ''investor_archetype_ppt_frequency'', ''investor_archetype_ppt_profile'',
           ''investor_archetype_free_ppt_frequency''] \<and>
        search =
          HttpCall ''POST'' ''https://api.hubapi.com/crm/v3/objects/contacts/search''
            [(''Authorization'', ''Bearer '' @ env_str token),
             (''Content-Type'', ''application/json'')]
            (JObj [(''filterGroups'',
                      JArr [JObj [(''filters'',
                                     JArr [JObj [(''propertyName'', JStr ''email''),
                                                 (''operator'', JStr ''EQ''),
                                                 (''value'',
                                                  get_prop (js_or (body req) (JObj [])) ''email'')]])]]),
                   (''properties'', JArr (map JStr (map fst props))),
                   (''limit'', JNum ''1'')]) \<and>
        search = search_call token props (get_prop (js_or (body req) (JObj [])) ''email'') \<and>
        (\<exists>rest e. hubspot_upsert token remote req = (search # rest, e)) \<and>
        (\<forall>found.
           first_result found =
             (if nullish found \<or> nullish (get_prop found ''results'') then JNull
              else if truthy (get_prop (get_prop found ''results'') ''0'')
                   then get_prop (get_prop found ''results'') ''0'' else JNull)) \<and>
        (\<forall>found d.
           remote [search] = Resolved found \<and> truthy (first_result found) \<and>
           stringable (get_prop (first_result found) ''id'') \<and>
           remote [search,
                   HttpCall ''PATCH''
                     (''https://api.hubapi.com/crm/v3/objects/contacts/'' @
                      rendered (get_prop (first_result found) ''id''))
                     [(''Authorization'', ''Bearer '' @ env_str token),
                      (''Content-Type'', ''application/json'')]
                     (JObj [(''properties'', JObj props)])] = Resolved d \<longrightarrow>
             hubspot_upsert token remote req =
               ([search,
                 HttpCall ''PATCH''
                   (''https://api.hubapi.com/crm/v3/objects/contacts/'' @
                    rendered (get_prop (first_result found) ''id''))
                   [(''Authorization'', ''Bearer '' @ env_str token),
                    (''Content-Type'', ''application/json'')]
                   (JObj [(''properties'', JObj props)])],
                Responded 200
                  (JObj [(''status'', JStr ''updated''),
                         (''id'', get_prop (first_result found) ''id''), (''data'', d)]))) \<and>
        (\<forall>found d.
           remote [search] = Resolved found \<and> \<not> truthy (first_result found) \<and>
           remote [search,
                   HttpCall ''POST'' ''https://api.hubapi.com/crm/v3/objects/contacts''
                     [(''Authorization'', ''Bearer '' @ env_str token),
                      (''Content-Type'', ''application/json'')]
                     (JObj [(''properties'', JObj props)])] = Resolved d \<and>
           \<not> nullish d \<longrightarrow>
             hubspot_upsert token remote req =
               ([search,
                 HttpCall ''POST'' ''https://api.hubapi.com/crm/v3/objects/contacts''
                   [(''Authorization'', ''Bearer '' @ env_str token),
                    (''Content-Type'', ''application/json'')]
                   (JObj [(''properties'', JObj props)])],
                Responded 200
                  (JObj [(''status'', JStr ''created''), (''id'', get_prop d ''id''),
                         (''data'', d)]))) \<and>
        (\<forall>found.
           remote [search] = Resolved found \<and> truthy (first_result found) \<and>
           stringable (get_prop (first_result found) ''id'') \<longrightarrow>
             fst (hubspot_upsert token remote req) =
               [search,
                update_call token props (rendered (get_prop (first_result found) ''id''))]) \<and>
        (\<forall>found.
           remote [search] = Resolved found \<and> truthy (first_result found) \<and>
           \<not> stringable (get_prop (first_result found) ''id'') \<longrightarrow>
             hubspot_upsert token remote req =
               ([search],
                Responded 500
                  (JObj [(''status'', JStr ''error''),
                         (''error'', JStr ''Cannot convert object to primitive value'')]))) \<and>
        (\<forall>found.
           remote [search] = Resolved found \<and> \<not> truthy (first_result found) \<longrightarrow>
             fst (hubspot_upsert token remote req) = [search, create_call token props])"
  proof (intro exI [of _ props] exI [of _ search] conjI)
    show "normalizeHubSpotContact (js_or (body req) (JObj [])) = Inr props" by (rule n)
    show "map fst props =
          [''email'', ''firstname'', ''lastname'', ''phone'', ''source'',
           ''investor_archetype_ppt_frequency'', ''investor_archetype_ppt_profile'',
           ''investor_archetype_free_ppt_frequency'']" by (rule k)
    show "search =
          HttpCall ''POST'' ''https://api.hubapi.com/crm/v3/objects/contacts/search''
            [(''Authorization'', ''Bearer '' @ env_str token),
             (''Content-Type'', ''application/json'')]
            (JObj [(''filterGroups'',
                      JArr [JObj [(''filters'',
                                     JArr [JObj [(''propertyName'', JStr ''email''),
                                                 (''operator'', JStr ''EQ''),
                                                 (''value'',
                                                  get_prop (js_or (body req) (JObj [])) ''email'')]])]]),
                   (''properties'', JArr (map JStr (map fst props))),
                   (''limit'', JNum ''1'')])" by (rule s)
    show "search = search_call token props (get_prop (js_or (body req) (JObj [])) ''email'')"
      by (rule search_def)
    show "\<exists>rest e. hubspot_upsert token remote req = (search # rest, e)" by (rule f)
    show "\<forall>found. first_result found =
             (if nullish found \<or> nullish (get_prop found ''results'') then JNull
              else if truthy (get_prop (get_prop found ''results'') ''0'')
                   then get_prop (get_prop found ''results'') ''0'' else JNull)" by (rule fr)
    show "\<forall>found d.
           remote [search] = Resolved found \<and> truthy (first_result found) \<and>
           stringable (get_prop (first_result found) ''id'') \<and>
           remote [search,
                   HttpCall ''PATCH''
                     (''https://api.hubapi.com/crm/v3/objects/contacts/'' @
                      rendered (get_prop (first_result found) ''id''))
                     [(''Authorization'', ''Bearer '' @ env_str token),
                      (''Content-Type'', ''application/json'')]
                     (JObj [(''properties'', JObj props)])] = Resolved d \<longrightarrow>
             hubspot_upsert token remote req =
               ([search,
                 HttpCall ''PATCH''
                   (''https://api.hubapi.com/crm/v3/objects/contacts/'' @
                    rendered (get_prop (first_result found) ''id''))
                   [(''Authorization'', ''Bearer '' @ env_str token),
                    (''Content-Type'', ''application/json'')]
                   (JObj [(''properties'', JObj props)])],
                Responded 200
                  (JObj [(''status'', JStr ''updated''),
                         (''id'', get_prop (first_result found) ''id''), (''data'', d)]))"
      unfolding ud using u by blast
    show "\<forall>found d.
           remote [search] = Resolved found \<and> \<not> truthy (first_result found) \<and>
           remote [search,
                   HttpCall ''POST'' ''https://api.hubapi.com/crm/v3/objects/contacts''
                     [(''Authorization'', ''Bearer '' @ env_str token),
                      (''Content-Type'', ''application/json'')]
                     (JObj [(''properties'', JObj props)])] = Resolved d \<and>
           \<not> nullish d \<longrightarrow>
             hubspot_upsert token remote req =
               ([search,
                 HttpCall ''POST'' ''https://api.hubapi.com/crm/v3/objects/contacts''
                   [(''Authorization'', ''Bearer '' @ env_str token),
                    (''Content-Type'', ''application/json'')]
                   (JObj [(''properties'', JObj props)])],
                Responded 200
                  (JObj [(''status'', JStr ''created''), (''id'', get_prop d ''id''),
                         (''data'', d)]))"
      unfolding cd using c by blast
    show "\<forall>found.
           remote [search] = Resolved found \<and> truthy (first_result found) \<and>
           stringable (get_prop (first_result found) ''id'') \<longrightarrow>
             fst (hubspot_upsert token remote req) =
               [search,
                update_call token props (rendered (get_prop (first_result found) ''id''))]"
      using iu unfolding update_def by blast
    show "\<forall>found.
           remote [search] = Resolved found \<and> truthy (first_result found) \<and>
           \<not> stringable (get_prop (first_result found) ''id'') \<longrightarrow>
             hubspot_upsert token remote req =
               ([search],
                Responded 500
                  (JObj [(''status'', JStr ''error''),
                         (''error'', JStr ''Cannot convert object to primitive value'')]))"
      using it by blast
    show "\<forall>found.
           remote [search] = Resolved found \<and> \<not> truthy (first_result found) \<longrightarrow>
             fst (hubspot_upsert token remote req) = [search, create_call token props]"
      using ic unfolding create_def by blast
  qed
qed

theorem single_upsert_witness:
  "truthy (get_prop (js_or (body \<lparr>x_shared_secret = JUndef, query_secret = JUndef,
                                  body = JObj [(''email'', JStr ''a@b.c''), (''firstName'', JStr ''Al'')]\<rparr>)
                          (JObj [])) ''email'') \<and>
   hubspot_upsert (Some ''tok'')
     (\<lambda>calls. if length calls = 1 then Resolved (JObj [(''results'', JArr [JObj [(''id'', JStr ''42'')]])])
              else Resolved (JObj [(''id'', JStr ''42''), (''updatedAt'', JStr ''now'')]))
     \<lparr>x_shared_secret = JUndef, query_secret = JUndef,
      body = JObj [(''email'', JStr ''a@b.c''), (''firstName'', JStr ''Al'')]\<rparr> =
     ([search_call (Some ''tok'')
         [(''email'', JStr ''a@b.c''), (''firstname'', JStr ''Al''), (''lastname'', JStr []),
          (''phone'', JStr []), (''source'', JStr []),
          (''investor_archetype_ppt_frequency'', JStr []),
          (''investor_archetype_ppt_profile'', JStr []),
          (''investor_archetype_free_ppt_frequency'', JStr [])]
         (JStr ''a@b.c''),
       HttpCall ''PATCH'' ''https://api.hubapi.com/crm/v3/objects/contacts/42''
         [(''Authorization'', ''Bearer tok''), (''Content-Type'', ''application/json'')]
         (JObj [(''properties'',
                 JObj [(''email'', JStr ''a@b.c''), (''firstname'', JStr ''Al''),
                       (''lastname'', JStr []), (''phone'', JStr []), (''source'', JStr []),
                       (''investor_archetype_ppt_frequency'', JStr []),
                       (''investor_archetype_ppt_profile'', JStr []),
                       (''investor_archetype_free_ppt_frequency'', JStr [])])])],
      Responded 200
        (JObj [(''status'', JStr ''updated''), (''id'', JStr ''42''),
               (''data'', JObj [(''id'', JStr ''42''), (''updatedAt'', JStr ''now'')])])) \<and>
   hubspot_upsert (Some ''tok'')
     (\<lambda>calls. if length calls = 1 then Resolved (JObj [(''results'', JArr [])])
              else Resolved (JObj [(''id'', JStr ''43'')]))
     \<lparr>x_shared_secret = JUndef, query_secret = JUndef,
      body = JObj [(''email'', JStr ''a@b.c''), (''firstName'', JStr ''Al'')]\<rparr> =
     ([search_call (Some ''tok'')
         [(''email'', JStr ''a@b.c''), (''firstname'', JStr ''Al''), (''lastname'', JStr []),
          (''phone'', JStr []), (''source'', JStr []),
          (''investor_archetype_ppt_frequency'', JStr []),
          (''investor_archetype_ppt_profile'', JStr []),
          (''investor_archetype_free_ppt_frequency'', JStr [])]
         (JStr ''a@b.c''),
       HttpCall ''POST'' ''https://api.hubapi.com/crm/v3/objects/contacts''
         [(''Authorization'', ''Bearer tok''), (''Content-Type'', ''application/json'')]
         (JObj [(''properties'',
                 JObj [(''email'', JStr ''a@b.c''), (''firstname'', JStr ''Al''),
                       (''lastname'', JStr []), (''phone'', JStr []), (''source'', JStr []),
                       (''investor_archetype_ppt_frequency'', JStr []),
                       (''investor_archetype_ppt_profile'', JStr []),
                       (''investor_archetype_free_ppt_frequency'', JStr [])])])],
      Responded 200
        (JObj [(''status'', JStr ''created''), (''id'', JStr ''43''),
               (''data'', JObj [(''id'', JStr ''43'')])]))"
proof -
  let ?req = "\<lparr>x_shared_secret = JUndef, query_secret = JUndef,
      body = JObj [(''email'', JStr ''a@b.c''), (''firstName'', JStr ''Al'')]\<rparr>"
  let ?P = "[(''email'', JStr ''a@b.c''), (''firstname'', JStr ''Al''), (''lastname'', JStr []),
          (''phone'', JStr []), (''source'', JStr []),
          (''investor_archetype_ppt_frequency'', JStr []),
          (''investor_archetype_ppt_profile'', JStr []),
          (''investor_archetype_free_ppt_frequency'', JStr [])]"
  let ?F1 = "JObj [(''results'', JArr [JObj [(''id'', JStr ''42'')]])]"
  let ?D1 = "JObj [(''id'', JStr ''42''), (''updatedAt'', JStr ''now'')]"
  let ?F2 = "JObj [(''results'', JArr [])]"
  let ?D2 = "JObj [(''id'', JStr ''43'')]"
  let ?rem1 = "\<lambda>calls::http_call list. if length calls = 1 then Resolved ?F1 else Resolved ?D1"
  let ?rem2 = "\<lambda>calls::http_call list. if length calls = 1 then Resolved ?F2 else Resolved ?D2"
  let ?mail = "get_prop (js_or (body ?req) (JObj [])) ''email''"
  have t: "truthy ?mail" by code_simp
  have m: "?mail = JStr ''a@b.c''" by code_simp
  have n: "normalizeHubSpotContact (js_or (body ?req) (JObj [])) = Inr ?P" by code_simp
  have f1: "truthy (first_result ?F1)" and i1: "get_prop (first_result ?F1) ''id'' = JStr ''42''"
    by code_simp+
  have f2: "\<not> truthy (first_result ?F2)" and i2: "get_prop ?D2 ''id'' = JStr ''43''"
    and n2: "\<not> nullish ?D2"
    by code_simp+
  have tk: "env_str (Some ''tok'') = ''tok''" by code_simp
  from single_upsert [of ?req "Some ''tok''" ?rem1, THEN mp, OF t]
  obtain props search where
    n1: "normalizeHubSpotContact (js_or (body ?req) (JObj [])) = Inr props" and
    s1: "search = search_call (Some ''tok'') props ?mail" and
    u1: "\<forall>found d.
           ?rem1 [search] = Resolved found \<and> truthy (first_result found) \<and>
           stringable (get_prop (first_result found) ''id'') \<and>
           ?rem1 [search,
                   HttpCall ''PATCH''
                     (''https://api.hubapi.com/crm/v3/objects/contacts/'' @
                      rendered (get_prop (first_result found) ''id''))
                     [(''Authorization'', ''Bearer '' @ env_str (Some ''tok'')),
                      (''Content-Type'', ''application/json'')]
                     (JObj [(''properties'', JObj props)])] = Resolved d \<longrightarrow>
             hubspot_upsert (Some ''tok'') ?rem1 ?req =
               ([search,
                 HttpCall ''PATCH''
                   (''https://api.hubapi.com/crm/v3/objects/contacts/'' @
                    rendered (get_prop (first_result found) ''id''))
                   [(''Authorization'', ''Bearer '' @ env_str (Some ''tok'')),
                    (''Content-Type'', ''application/json'')]
                   (JObj [(''properties'', JObj props)])],
                Responded 200
                  (JObj [(''status'', JStr ''updated''),
                         (''id'', get_prop (first_result found) ''id''), (''data'', d)]))"
    by blast
  from n n1 have p1: "props = ?P" by simp
  from s1 m have s1m: "search = search_call (Some ''tok'') props (JStr ''a@b.c'')"
    by (simp only:)
  from u1 [rule_format, of ?F1 ?D1] f1
  have a: "hubspot_upsert (Some ''tok'') ?rem1 ?req =
      ([search_call (Some ''tok'') ?P (JStr ''a@b.c''),
        HttpCall ''PATCH'' ''https://api.hubapi.com/crm/v3/objects/contacts/42''
          [(''Authorization'', ''Bearer tok''), (''Content-Type'', ''application/json'')]
          (JObj [(''properties'', JObj ?P)])],
       Responded 200 (JObj [(''status'', JStr ''updated''), (''id'', JStr ''42''), (''data'', ?D1)]))"
    by (simp add: i1 tk s1m p1)
  from single_upsert [of ?req "Some ''tok''" ?rem2, THEN mp, OF t]
  obtain props' search' where
    n1': "normalizeHubSpotContact (js_or (body ?req) (JObj [])) = Inr props'" and
    s1': "search' = search_call (Some ''tok'') props' ?mail" and
    c1: "\<forall>found d.
           ?rem2 [search'] = Resolved found \<and> \<not> truthy (first_result found) \<and>
           ?rem2 [search',
                   HttpCall ''POST'' ''https://api.hubapi.com/crm/v3/objects/contacts''
                     [(''Authorization'', ''Bearer '' @ env_str (Some ''tok'')),
                      (''Content-Type'', ''application/json'')]
                     (JObj [(''properties'', JObj props')])] = Resolved d \<and>
           \<not> nullish d \<longrightarrow>
             hubspot_upsert (Some ''tok'') ?rem2 ?req =
               ([search',
                 HttpCall ''POST'' ''https://api.hubapi.com/crm/v3/objects/contacts''
                   [(''Authorization'', ''Bearer '' @ env_str (Some ''tok'')),
                    (''Content-Type'', ''application/json'')]
                   (JObj [(''properties'', JObj props')])],
                Responded 200
                  (JObj [(''status'', JStr ''created''), (''id'', get_prop d ''id''),
                         (''data'', d)]))"
    by blast
  from n n1' have p2: "props' = ?P" by simp
  from s1' m have s1m': "search' = search_call (Some ''tok'') props' (JStr ''a@b.c'')"
    by (simp only:)
  from c1 [rule_format, of ?F2 ?D2] f2 n2
  have b: "hubspot_upsert (Some ''tok'') ?rem2 ?req =
      ([search_call (Some ''tok'') ?P (JStr ''a@b.c''),
        HttpCall ''POST'' ''https://api.hubapi.com/crm/v3/objects/contacts''
          [(''Authorization'', ''Bearer tok''), (''Content-Type'', ''application/json'')]
          (JObj [(''properties'', JObj ?P)])],
       Responded 200 (JObj [(''status'', JStr ''created''), (''id'', JStr ''43''), (''data'', ?D2)]))"
    by (simp add: i2 tk s1m' p2)
  from t a b show ?thesis by (intro conjI)
qed

text \<open>
  C8, as the code has it: the OperatingFrame normalizer gives an absent source the value
  \<open>GHL Survey\<close>, not the empty string.
\<close>

theorem operatingframe_source_counterexample:
  "normalizeHubSpotContactOperatingFrame (JObj [(''email'', JStr ''a@b.c'')]) =
     Inr [(''email'', JStr ''a@b.c''), (''firstname'', JStr []), (''lastname'', JStr []),
          (''phone'', JStr []), (''Source'', JStr ''GHL Survey''),
          (''FreeOperatingFrameFrequency'', JStr []), (''FreeOperatingFrameTest'', JStr [])]"
  by code_simp

text \<open>
  C8, amended. For every argument but \<open>null\<close>, each of the two normalizers returns an object
  with its fixed list of property names, the same for every input, and the empty string for
  every field other than email that is absent; except that the OperatingFrame normalizer gives
  an absent source the value \<open>GHL Survey\<close>.
\<close>

theorem stable_property_set:
  "(or_empty arg \<noteq> JNull \<longrightarrow>
      (\<exists>props. normalizeHubSpotContact arg = Inr props \<and> map fst props = hubspot_keys \<and>
         (absent (or_empty arg) [''firstname'', ''firstName''] \<longrightarrow>
            obj_get props ''firstname'' = JStr []) \<and>
         (absent (or_empty arg) [''lastname'', ''lastName''] \<longrightarrow>
            obj_get props ''lastname'' = JStr []) \<and>
         (\<forall>k\<in>set [''phone'', ''source'', ''investor_archetype_ppt_frequency'',
                    ''investor_archetype_ppt_profile'', ''investor_archetype_free_ppt_frequency''].
            absent (or_empty arg) [k] \<longrightarrow> obj_get props k = JStr []))) \<and>
   (or_empty arg \<noteq> JNull \<longrightarrow>
      (\<exists>props. normalizeHubSpotContactOperatingFrame arg = Inr props \<and>
         map fst props = operatingframe_keys \<and>
         (absent (or_empty arg) [''firstname'', ''firstName''] \<and>
          absent (operatingframe_contact (or_empty arg)) [''first_name'', ''firstname''] \<longrightarrow>
            obj_get props ''firstname'' = JStr []) \<and>
         (absent (or_empty arg) [''lastname'', ''lastName''] \<and>
          absent (operatingframe_contact (or_empty arg)) [''last_name'', ''lastname''] \<longrightarrow>
            obj_get props ''lastname'' = JStr []) \<and>
         (absent (or_empty arg) [''phone''] \<and>
          absent (operatingframe_contact (or_empty arg)) [''phone''] \<longrightarrow>
            obj_get props ''phone'' = JStr []) \<and>
         (absent (or_empty arg) [''free_operatingframe_frequency'', ''FreeOperatingFrameFrequency''] \<and>
          absent (operatingframe_contact (or_empty arg))
            [''free_operatingframe_frequency'', ''FreeOperatingFrameFrequency''] \<longrightarrow>
            obj_get props ''FreeOperatingFrameFrequency'' = JStr []) \<and>
         (absent (or_empty arg) [''free_operatingframe_test'', ''FreeOperatingFrameTest''] \<and>
          absent (operatingframe_contact (or_empty arg))
            [''free_operatingframe_test'', ''FreeOperatingFrameTest''] \<longrightarrow>
            obj_get props ''FreeOperatingFrameTest'' = JStr []) \<and>
         (absent (or_empty arg) [''source''] \<and>
          absent (operatingframe_contact (or_empty arg)) [''source''] \<longrightarrow>
            obj_get props ''Source'' = JStr ''GHL Survey'')))"
proof (intro conjI impI)
  assume nn: "or_empty arg \<noteq> JNull"
  then have u: "\<not> nullish (or_empty arg)" by (auto simp: or_empty_def nullish_def)
  show "\<exists>props. normalizeHubSpotContact arg = Inr props \<and> map fst props = hubspot_keys \<and>
         (absent (or_empty arg) [''firstname'', ''firstName''] \<longrightarrow>
            obj_get props ''firstname'' = JStr []) \<and>
         (absent (or_empty arg) [''lastname'', ''lastName''] \<longrightarrow>
            obj_get props ''lastname'' = JStr []) \<and>
         (\<forall>k\<in>set [''phone'', ''source'', ''investor_archetype_ppt_frequency'',
                    ''investor_archetype_ppt_profile'', ''investor_archetype_free_ppt_frequency''].
            absent (or_empty arg) [k] \<longrightarrow> obj_get props k = JStr [])"
    using u
    by (simp add: normalizeHubSpotContact_def or_empty_def [symmetric] Let_def hubspot_keys_def
        absent_def obj_get_def coalesce_def)
next
  assume nn: "or_empty arg \<noteq> JNull"
  then have u: "\<not> nullish (or_empty arg)" by (auto simp: or_empty_def nullish_def)
  show "\<exists>props. normalizeHubSpotContactOperatingFrame arg = Inr props \<and>
         map fst props = operatingframe_keys \<and>
         (absent (or_empty arg) [''firstname'', ''firstName''] \<and>
          absent (operatingframe_contact (or_empty arg)) [''first_name'', ''firstname''] \<longrightarrow>
            obj_get props ''firstname'' = JStr []) \<and>
         (absent (or_empty arg) [''lastname'', ''lastName''] \<and>
          absent (operatingframe_contact (or_empty arg)) [''last_name'', ''lastname''] \<longrightarrow>
            obj_get props ''lastname'' = JStr []) \<and>
         (absent (or_empty arg) [''phone''] \<and>
          absent (operatingframe_contact (or_empty arg)) [''phone''] \<longrightarrow>
            obj_get props ''phone'' = JStr []) \<and>
         (absent (or_empty arg) [''free_operatingframe_frequency'', ''FreeOperatingFrameFrequency''] \<and>
          absent (operatingframe_contact (or_empty arg))
            [''free_operatingframe_frequency'', ''FreeOperatingFrameFrequency''] \<longrightarrow>
            obj_get props ''FreeOperatingFrameFrequency'' = JStr []) \<and>
         (absent (or_empty arg) [''free_operatingframe_test'', ''FreeOperatingFrameTest''] \<and>
          absent (operatingframe_contact (or_empty arg))
            [''free_operatingframe_test'', ''FreeOperatingFrameTest''] \<longrightarrow>
            obj_get props ''FreeOperatingFrameTest'' = JStr []) \<and>
         (absent (or_empty arg) [''source''] \<and>
          absent (operatingframe_contact (or_empty arg)) [''source''] \<longrightarrow>
            obj_get props ''Source'' = JStr ''GHL Survey'')"
    using u
    by (simp add: normalizeHubSpotContactOperatingFrame_def or_empty_def [symmetric] Let_def
        operatingframe_keys_def absent_def obj_get_def coalesce_def coalesce4_def
        operatingframe_contact_def)
qed

theorem stable_property_set_witness:
  "or_empty (JObj [(''email'', JStr ''a@b.c''), (''phone'', JNull)]) \<noteq> JNull \<and>
   absent (or_empty (JObj [(''email'', JStr ''a@b.c''), (''phone'', JNull)])) [''phone''] \<and>
   normalizeHubSpotContact (JObj [(''email'', JStr ''a@b.c''), (''phone'', JNull)]) =
     Inr [(''email'', JStr ''a@b.c''), (''firstname'', JStr []), (''lastname'', JStr []),
          (''phone'', JStr []), (''source'', JStr []),
          (''investor_archetype_ppt_frequency'', JStr []),
          (''investor_archetype_ppt_profile'', JStr []),
          (''investor_archetype_free_ppt_frequency'', JStr [])] \<and>
   obj_get [(''email'', JStr ''a@b.c''), (''firstname'', JStr []), (''lastname'', JStr []),
          (''phone'', JStr []), (''source'', JStr []),
          (''investor_archetype_ppt_frequency'', JStr []),
          (''investor_archetype_ppt_profile'', JStr []),
          (''investor_archetype_free_ppt_frequency'', JStr [])] ''phone'' = JStr [] \<and>
   absent (or_empty (JObj [(''contact'', JObj [(''email'', JStr ''a@b.c'')])])) [''source''] \<and>
   absent (operatingframe_contact (or_empty (JObj [(''contact'', JObj [(''email'', JStr ''a@b.c'')])])))
     [''source''] \<and>
   normalizeHubSpotContactOperatingFrame (JObj [(''contact'', JObj [(''email'', JStr ''a@b.c'')])]) =
     Inr [(''email'', JStr ''a@b.c''), (''firstname'', JStr []), (''lastname'', JStr []),
          (''phone'', JStr []), (''Source'', JStr ''GHL Survey''),
          (''FreeOperatingFrameFrequency'', JStr []), (''FreeOperatingFrameTest'', JStr [])] \<and>
   obj_get [(''email'', JStr ''a@b.c''), (''firstname'', JStr []), (''lastname'', JStr []),
          (''phone'', JStr []), (''Source'', JStr ''GHL Survey''),
          (''FreeOperatingFrameFrequency'', JStr []), (''FreeOperatingFrameTest'', JStr [])]
     ''Source'' = JStr ''GHL Survey''"
proof -
  let ?A = "JObj [(''email'', JStr ''a@b.c''), (''phone'', JNull)]"
  let ?P = "[(''email'', JStr ''a@b.c''), (''firstname'', JStr []), (''lastname'', JStr []),
          (''phone'', JStr []), (''source'', JStr []),
          (''investor_archetype_ppt_frequency'', JStr []),
          (''investor_archetype_ppt_profile'', JStr []),
          (''investor_archetype_free_ppt_frequency'', JStr [])]"
  let ?B = "JObj [(''contact'', JObj [(''email'', JStr ''a@b.c'')])]"
  let ?Q = "[(''email'', JStr ''a@b.c''), (''firstname'', JStr []), (''lastname'', JStr []),
          (''phone'', JStr []), (''Source'', JStr ''GHL Survey''),
          (''FreeOperatingFrameFrequency'', JStr []), (''FreeOperatingFrameTest'', JStr [])]"
  have 1: "or_empty ?A \<noteq> JNull" by code_simp
  have 2: "absent (or_empty ?A) [''phone'']" by code_simp
  have n: "normalizeHubSpotContact ?A = Inr ?P" by code_simp
  have 3: "or_empty ?B \<noteq> JNull" by code_simp
  have 4: "absent (or_empty ?B) [''source'']" by code_simp
  have 5: "absent (operatingframe_contact (or_empty ?B)) [''source'']" by code_simp
  have m: "normalizeHubSpotContactOperatingFrame ?B = Inr ?Q" by code_simp
  from stable_property_set [of ?A] 1 n
  have "\<forall>k\<in>set [''phone'', ''source'', ''investor_archetype_ppt_frequency'',
                    ''investor_archetype_ppt_profile'', ''investor_archetype_free_ppt_frequency''].
            absent (or_empty ?A) [k] \<longrightarrow> obj_get ?P k = JStr []"
    by auto
  with 2 have a: "obj_get ?P ''phone'' = JStr []" by simp
  from stable_property_set [of ?B] 3 m
  have "absent (or_empty ?B) [''source''] \<and>
          absent (operatingframe_contact (or_empty ?B)) [''source''] \<longrightarrow>
            obj_get ?Q ''Source'' = JStr ''GHL Survey''"
    by auto
  with 4 5 have b: "obj_get ?Q ''Source'' = JStr ''GHL Survey''" by simp
  from 1 2 n a 4 5 m b show ?thesis by simp
qed

section \<open>Batch upsert\<close>




















section \<open>Payloads without email and phone\<close>

lemma first_acceptable_unresolved:
  "list_all (\<lambda>p. \<not> defined_nonblank (resolve_path payload p)) ps \<Longrightarrow>
   first_acceptable payload ps = JUndef"
  by (induction ps) (auto simp: first_acceptable_def)

lemma split_tags_total:
  "is_array tg \<or> stringable tg \<Longrightarrow> \<exists>tgs. split_tags tg = Inr tgs"
  by (cases tg) (auto simp: split_tags_def js_String_def)

text \<open>
  C3, as the code has it. In server.js the shared secret is checked first, so a request
  without the configured secret whose payload has neither email nor phone is answered 401, not
  400. The batch route does not look for an email or a phone in what it is sent: a body whose
  only contact has neither is forwarded in a call and answered 200.
\<close>

theorem unauthorized_first_counterexample:
  "list_all (\<lambda>p. \<not> defined_nonblank (resolve_path (JObj [(''firstName'', JStr ''Al'')]) p))
     (email_paths @ phone_paths) \<and>
   crm_webhook (Some ''s3cret'') (Some ''key'') None (\<lambda>calls. Resolved JNull)
     \<lparr>x_shared_secret = JUndef, query_secret = JUndef,
      body = JObj [(''firstName'', JStr ''Al'')]\<rparr> =
     ([], Responded 401
            (JObj [(''status'', JStr ''error''),
                   (''message'', JStr ''Unauthorized (shared secret missing/invalid)'')])) \<and>
   list_all (\<lambda>p. \<not> defined_nonblank
                    (resolve_path (JObj [(''contacts'', JArr [JObj [(''firstname'', JStr ''Al'')]])]) p))
     (email_paths @ phone_paths) \<and>
   hubspot_batch (Some ''tok'') (\<lambda>calls. Resolved (JObj []))
     \<lparr>x_shared_secret = JUndef, query_secret = JUndef,
      body = JObj [(''contacts'', JArr [JObj [(''firstname'', JStr ''Al'')]])]\<rparr> =
     ([group_call (Some ''tok'') [JObj [(''firstname'', JStr ''Al'')]]],
      batch_success 1 [JObj []])"
  by code_simp

text \<open>
  C3, amended. In the CRM handlers of server.js, a request that passes the shared-secret check
  and whose body is a plain parsed JSON value (no object in it has a key \<open>toString\<close>), not
  \<open>null\<close> or \<open>undefined\<close>, with no truthy first acceptable value among the aliases of email and
  none among the aliases of phone (in particular a body with no defined, non-blank value at
  any of these aliases) is answered 400 with the body
  \<open>{status: 'error', message: 'Missing email or phone'}\<close> and no outbound call. A request that
  fails the check is answered 401, also with no outbound call; a request whose secret or whose
  payload makes the check or the normalization throw ends with that exception, without an
  outbound call. In the CRM handlers of the later revision, which have no such check, a body
  with no truthy value at any alias of email or phone, whose tags are an array or can be
  converted to a string, is answered 400 with no outbound call. The single-contact route of
  the marketing platform answers 400 with no outbound call when the body has no truthy email.
\<close>

theorem missing_identity_rejected:
  "(assertSharedSecret configured req = Inr True \<and> \<not> nullish (body req) \<and> plain (body req) \<and>
    \<not> truthy (first_acceptable (body req)
                 [''email'', ''contact.email'', ''contact.email_address'']) \<and>
    \<not> truthy (first_acceptable (body req)
                 [''phone'', ''contact.phone'', ''contact.phone_number'']) \<longrightarrow>
      crm_webhook configured apiKey locId remote req =
        ([], Responded 400
               (JObj [(''status'', JStr ''error''),
                      (''message'', JStr ''Missing email or phone'')]))) \<and>
   (list_all (\<lambda>p. \<not> defined_nonblank (resolve_path (body req) p)) ps \<longrightarrow>
      first_acceptable (body req) ps = JUndef \<and> \<not> truthy (first_acceptable (body req) ps)) \<and>
   (assertSharedSecret configured req = Inr False \<longrightarrow>
      crm_webhook configured apiKey locId remote req =
        ([], Responded 401
               (JObj [(''status'', JStr ''error''),
                      (''message'', JStr ''Unauthorized (shared secret missing/invalid)'')]))) \<and>
   (assertSharedSecret configured req = Inl err \<longrightarrow>
      crm_webhook configured apiKey locId remote req = ([], Unhandled err)) \<and>
   (assertSharedSecret configured req = Inr True \<and>
    buildContactPayload (body req) [''From Account A''] locId (Some competency_coach) = Inl err \<longrightarrow>
      crm_webhook configured apiKey locId remote req = ([], Unhandled err)) \<and>
   (\<not> nullish (body req) \<and>
    (is_array (get_prop (body req) ''tags'') \<or> stringable (get_prop (body req) ''tags'')) \<and>
    list_all (\<lambda>v. \<not> truthy v) (ghl_aliases (body req)) \<longrightarrow>
      ghl_webhook account apiKey locId remote req =
        ([], Responded 400 (JStr ''Missing email or phone''))) \<and>
   (\<not> truthy (get_prop (js_or (body req) (JObj [])) ''email'') \<longrightarrow>
      hubspot_upsert token remote req =
        ([], Responded 400
               (JObj [(''status'', JStr ''error''),
                      (''message'', JStr ''Missing required field: email'')])))"
proof (intro conjI impI)
  assume h: "assertSharedSecret configured req = Inr True \<and> \<not> nullish (body req) \<and>
    plain (body req) \<and>
    \<not> truthy (first_acceptable (body req)
                 [''email'', ''contact.email'', ''contact.email_address'']) \<and>
    \<not> truthy (first_acceptable (body req)
                 [''phone'', ''contact.phone'', ''contact.phone_number''])"
  then have "\<exists>c. buildContactPayload (body req) [''From Account A''] locId
                    (Some competency_coach) = Inr c"
    by (intro build_plain) auto
  then obtain c where
    b: "buildContactPayload (body req) [''From Account A''] locId (Some competency_coach) = Inr c"
    by blast
  from build_fields(5,6) [OF b] h have "email c = None" "phone c = None"
    by (simp_all add: email_paths_def phone_paths_def when_truthy_def)
  with h b show "crm_webhook configured apiKey locId remote req =
        ([], Responded 400
               (JObj [(''status'', JStr ''error''),
                      (''message'', JStr ''Missing email or phone'')]))"
    by (simp add: crm_webhook_def field_def)
next
  assume "list_all (\<lambda>p. \<not> defined_nonblank (resolve_path (body req) p)) ps"
  then show "first_acceptable (body req) ps = JUndef"
    by (rule first_acceptable_unresolved)
next
  assume "list_all (\<lambda>p. \<not> defined_nonblank (resolve_path (body req) p)) ps"
  then show "\<not> truthy (first_acceptable (body req) ps)"
    by (simp add: first_acceptable_unresolved)
next
  assume "assertSharedSecret configured req = Inr False"
  then show "crm_webhook configured apiKey locId remote req =
        ([], Responded 401
               (JObj [(''status'', JStr ''error''),
                      (''message'', JStr ''Unauthorized (shared secret missing/invalid)'')]))"
    by (simp add: crm_webhook_def unauthorized_def)
next
  assume "assertSharedSecret configured req = Inl err"
  then show "crm_webhook configured apiKey locId remote req = ([], Unhandled err)"
    by (simp add: crm_webhook_def)
next
  assume "assertSharedSecret configured req = Inr True \<and>
    buildContactPayload (body req) [''From Account A''] locId (Some competency_coach) = Inl err"
  then show "crm_webhook configured apiKey locId remote req = ([], Unhandled err)"
    by (simp add: crm_webhook_def)
next
  assume h: "\<not> nullish (body req) \<and>
    (is_array (get_prop (body req) ''tags'') \<or> stringable (get_prop (body req) ''tags'')) \<and>
    list_all (\<lambda>v. \<not> truthy v) (ghl_aliases (body req))"
  then obtain tgs where "split_tags (get_prop (body req) ''tags'') = Inr tgs"
    using split_tags_total by blast
  with h show "ghl_webhook account apiKey locId remote req =
        ([], Responded 400 (JStr ''Missing email or phone''))"
    by (simp add: ghl_webhook_def buildGhlContact_def ghl_aliases_def Let_def obj_get_def js_or_def)
next
  let ?raw = "js_or (body req) (JObj [])"
  assume t: "\<not> truthy (get_prop ?raw ''email'')"
  have nn: "\<not> nullish ?raw" by (auto simp: js_or_def nullish_def)
  from normalize_total [OF nn] obtain props where n: "normalizeHubSpotContact ?raw = Inr props"
    by blast
  from t n normalize_email [OF n nn]
  show "hubspot_upsert token remote req =
        ([], Responded 400
               (JObj [(''status'', JStr ''error''),
                      (''message'', JStr ''Missing required field: email'')]))"
    by (simp add: hubspot_upsert_def)
qed

theorem missing_identity_rejected_witness:
  "assertSharedSecret (Some ''s3cret'')
     \<lparr>x_shared_secret = JStr ''s3cret'', query_secret = JUndef,
      body = JObj [(''firstName'', JStr ''Al''), (''email'', JStr ''  '')]\<rparr> = Inr True \<and>
   \<not> nullish (JObj [(''firstName'', JStr ''Al''), (''email'', JStr ''  '')]) \<and>
   plain (JObj [(''firstName'', JStr ''Al''), (''email'', JStr ''  '')]) \<and>
   list_all (\<lambda>p. \<not> defined_nonblank
                    (resolve_path (JObj [(''firstName'', JStr ''Al''), (''email'', JStr ''  '')]) p))
     [''email'', ''contact.email'', ''contact.email_address''] \<and>
   list_all (\<lambda>p. \<not> defined_nonblank
                    (resolve_path (JObj [(''firstName'', JStr ''Al''), (''email'', JStr ''  '')]) p))
     [''phone'', ''contact.phone'', ''contact.phone_number''] \<and>
   crm_webhook (Some ''s3cret'') (Some ''key'') None (\<lambda>calls. Resolved JNull)
     \<lparr>x_shared_secret = JStr ''s3cret'', query_secret = JUndef,
      body = JObj [(''firstName'', JStr ''Al''), (''email'', JStr ''  '')]\<rparr> =
     ([], Responded 400
            (JObj [(''status'', JStr ''error''), (''message'', JStr ''Missing email or phone'')])) \<and>
   assertSharedSecret (Some ''s3cret'')
     \<lparr>x_shared_secret = JStr ''guess'', query_secret = JUndef, body = JObj []\<rparr> = Inr False \<and>
   crm_webhook (Some ''s3cret'') (Some ''key'') None (\<lambda>calls. Resolved JNull)
     \<lparr>x_shared_secret = JStr ''guess'', query_secret = JUndef, body = JObj []\<rparr> =
     ([], Responded 401
            (JObj [(''status'', JStr ''error''),
                   (''message'', JStr ''Unauthorized (shared secret missing/invalid)'')])) \<and>
   assertSharedSecret None
     \<lparr>x_shared_secret = JUndef, query_secret = JUndef,
      body = JObj [(''email'', JObj [(''toString'', JNum ''1'')])]\<rparr> = Inr True \<and>
   buildContactPayload (JObj [(''email'', JObj [(''toString'', JNum ''1'')])])
     [''From Account A''] None (Some competency_coach) =
     Inl (TypeError ''Cannot convert object to primitive value'') \<and>
   crm_webhook None (Some ''key'') None (\<lambda>calls. Resolved JNull)
     \<lparr>x_shared_secret = JUndef, query_secret = JUndef,
      body = JObj [(''email'', JObj [(''toString'', JNum ''1'')])]\<rparr> =
     ([], Unhandled (TypeError ''Cannot convert object to primitive value'')) \<and>
   stringable (get_prop (JObj [(''contact'', JObj [(''email'', JStr [])])]) ''tags'') \<and>
   list_all (\<lambda>v. \<not> truthy v) (ghl_aliases (JObj [(''contact'', JObj [(''email'', JStr [])])])) \<and>
   ghl_webhook ''A'' (Some ''key'') None (\<lambda>calls. Resolved JNull)
     \<lparr>x_shared_secret = JUndef, query_secret = JUndef,
      body = JObj [(''contact'', JObj [(''email'', JStr [])])]\<rparr> =
     ([], Responded 400 (JStr ''Missing email or phone'')) \<and>
   \<not> truthy (get_prop (js_or (JObj [(''contact'', JObj [(''email'', JStr [])])]) (JObj [])) ''email'') \<and>
   hubspot_upsert (Some ''tok'') (\<lambda>calls. Resolved JNull)
     \<lparr>x_shared_secret = JUndef, query_secret = JUndef,
      body = JObj [(''contact'', JObj [(''email'', JStr [])])]\<rparr> =
     ([], Responded 400
            (JObj [(''status'', JStr ''error''),
                   (''message'', JStr ''Missing required field: email'')]))"
proof -
  let ?b1 = "JObj [(''firstName'', JStr ''Al''), (''email'', JStr ''  '')]"
  let ?b3 = "JObj [(''contact'', JObj [(''email'', JStr [])])]"
  let ?b4 = "JObj [(''email'', JObj [(''toString'', JNum ''1'')])]"
  let ?r1 = "\<lparr>x_shared_secret = JStr ''s3cret'', query_secret = JUndef, body = ?b1\<rparr>"
  let ?r2 = "\<lparr>x_shared_secret = JStr ''guess'', query_secret = JUndef, body = JObj []\<rparr>"
  let ?r3 = "\<lparr>x_shared_secret = JUndef, query_secret = JUndef, body = ?b3\<rparr>"
  let ?r4 = "\<lparr>x_shared_secret = JUndef, query_secret = JUndef, body = ?b4\<rparr>"
  let ?rem = "\<lambda>calls::http_call list. Resolved JNull"
  let ?E = "[''email'', ''contact.email'', ''contact.email_address'']"
  let ?Ph = "[''phone'', ''contact.phone'', ''contact.phone_number'']"
  let ?err = "TypeError ''Cannot convert object to primitive value''"
  have 1: "assertSharedSecret (Some ''s3cret'') ?r1 = Inr True" by code_simp
  have 2: "\<not> nullish ?b1" by code_simp
  have pl: "plain ?b1" by code_simp
  have 3: "list_all (\<lambda>p. \<not> defined_nonblank (resolve_path ?b1 p)) ?E" by code_simp
  have np: "list_all (\<lambda>p. \<not> defined_nonblank (resolve_path ?b1 p)) ?Ph" by code_simp
  have 4: "assertSharedSecret (Some ''s3cret'') ?r2 = Inr False" by code_simp
  have 5: "\<not> nullish ?b3" by code_simp
  have st: "stringable (get_prop ?b3 ''tags'')" by code_simp
  have 6: "list_all (\<lambda>v. \<not> truthy v) (ghl_aliases ?b3)" by code_simp
  have 7: "\<not> truthy (get_prop (js_or ?b3 (JObj [])) ''email'')" by code_simp
  have 8: "assertSharedSecret None ?r4 = Inr True" by code_simp
  have 9: "buildContactPayload ?b4 [''From Account A''] None (Some competency_coach) = Inl ?err"
    by code_simp
  from missing_identity_rejected [of "Some ''s3cret''" ?r1 _ _ _ ?E] 3
  have e1: "\<not> truthy (first_acceptable ?b1 ?E)" by simp
  from missing_identity_rejected [of "Some ''s3cret''" ?r1 _ _ _ ?Ph] np
  have e2: "\<not> truthy (first_acceptable ?b1 ?Ph)" by simp
  from missing_identity_rejected [of "Some ''s3cret''" ?r1 "Some ''key''" None ?rem] 1 2 pl e1 e2
  have a: "crm_webhook (Some ''s3cret'') (Some ''key'') None ?rem ?r1 =
     ([], Responded 400
            (JObj [(''status'', JStr ''error''), (''message'', JStr ''Missing email or phone'')]))"
    by simp
  from missing_identity_rejected [of "Some ''s3cret''" ?r2 "Some ''key''" None ?rem] 4
  have b: "crm_webhook (Some ''s3cret'') (Some ''key'') None ?rem ?r2 =
     ([], Responded 401
            (JObj [(''status'', JStr ''error''),
                   (''message'', JStr ''Unauthorized (shared secret missing/invalid)'')]))"
    by blast
  from missing_identity_rejected [of None ?r4 "Some ''key''" None ?rem _ ?err] 8 9
  have g: "crm_webhook None (Some ''key'') None ?rem ?r4 = ([], Unhandled ?err)"
    by simp
  from missing_identity_rejected [of "Some ''s3cret''" ?r3 "Some ''key''" None ?rem _ _ "''A''"] 5 st 6
  have c: "ghl_webhook ''A'' (Some ''key'') None ?rem ?r3 =
     ([], Responded 400 (JStr ''Missing email or phone''))"
    by simp
  from missing_identity_rejected [of "Some ''s3cret''" ?r3 "Some ''key''" None ?rem _ _ "''A''"
      "Some ''tok''"] 7
  have d: "hubspot_upsert (Some ''tok'') ?rem ?r3 =
     ([], Responded 400
            (JObj [(''status'', JStr ''error''),
                   (''message'', JStr ''Missing required field: email'')]))"
    by simp
  from 1 2 pl 3 np a 4 b 8 9 g st 6 c 7 d show ?thesis by (intro conjI)
qed


end
